theory Spec2Isabelle
  imports Main
begin

section \<open>Status codes and basic types\<close>

text \<open>
  The library reports every failure as a WebAuth status code (an \<^verbatim>\<open>int\<close> in the C
  sources, \<^verbatim>\<open>WA_ERR_NONE\<close> for success).  A function that returns a status and stores
  its result through an output pointer is a function to a pair of the status and the
  optional result: \<open>None\<close> is the C \<^verbatim>\<open>NULL\<close> left in the output argument.

  Every call of \<^verbatim>\<open>time(NULL)\<close> is the explicit argument \<open>now\<close> of the function that makes
  it.  \<^verbatim>\<open>time_t\<close> is a signed and \<^verbatim>\<open>unsigned long\<close> an unsigned integer of 64 bits.  A
  \<^verbatim>\<open>time_t\<close> value is the integer it stands for and an \<^verbatim>\<open>unsigned long\<close> value the
  natural number below \<open>2 ^ 64\<close> it stands for.  The code compares times everywhere
  and computes with them in one place, the sum in \<^verbatim>\<open>check_ring\<close>: there the cast to
  \<^verbatim>\<open>time_t\<close> and the wrap-around of the sum are written out with \<open>to_time_t\<close>, the
  two's complement value of the low 64 bits.
\<close>

datatype wa_status =
    WA_ERR_NONE
  | WA_ERR_NO_MEM
  | WA_ERR_CORRUPT
  | WA_ERR_BAD_HMAC
  | WA_ERR_BAD_KEY
  | WA_ERR_RAND_FAILURE
  | WA_ERR_NOT_FOUND
  | WA_ERR_INVALID
  | WA_ERR_FILE_NOT_FOUND
  | WA_ERR_FILE_VERSION
  | WA_ERR_FILE_OPENREAD
  | WA_ERR_FILE_OPENWRITE
  | WA_ERR_FILE_READ
  | WA_ERR_FILE_WRITE
  | WA_ERR_TOKEN_EXPIRED

type_synonym bytes = string
type_synonym time_t = int

definition to_time_t :: "int \<Rightarrow> time_t" where
  "to_time_t x = (x + 2 ^ 63) mod 2 ^ 64 - 2 ^ 63"

definition ULONG_MAX :: nat where
  "ULONG_MAX = 18446744073709551615"

section \<open>Keys and keyrings (lib/keyring.c)\<close>

record webauth_key =
  key_type :: nat
  key_length :: nat
  key_data :: bytes

record webauth_keyring_entry =
  creation :: time_t
  valid_after :: time_t
  key :: webauth_key

text \<open>A keyring is its array of entries; a \<^verbatim>\<open>NULL\<close> keyring is \<open>None\<close> where the
  code tests for it.\<close>

type_synonym webauth_keyring = "webauth_keyring_entry list"

datatype webauth_key_usage = WA_KEY_DECRYPT | WA_KEY_ENCRYPT

definition WA_KEY_AES :: nat where
  "WA_KEY_AES = 1"

definition WA_AES_128 :: nat where
  "WA_AES_128 = 16"

definition KEYRING_VERSION :: nat where
  "KEYRING_VERSION = 1"

definition webauth_keyring_new :: "nat \<Rightarrow> webauth_keyring" where
  "webauth_keyring_new capacity = []"

text \<open>\<^verbatim>\<open>webauth_key_copy\<close> duplicates the key; a value is its own copy.\<close>

definition webauth_key_copy :: "webauth_key \<Rightarrow> webauth_key" where
  "webauth_key_copy k = k"

definition webauth_keyring_add ::
  "webauth_keyring \<Rightarrow> time_t \<Rightarrow> time_t \<Rightarrow> webauth_key \<Rightarrow> webauth_keyring" where
  "webauth_keyring_add ring c va k =
     ring @ [\<lparr>creation = c, valid_after = va, key = webauth_key_copy k\<rparr>]"

definition webauth_keyring_from_key :: "webauth_key \<Rightarrow> webauth_keyring" where
  "webauth_keyring_from_key k = webauth_keyring_add (webauth_keyring_new 1) 0 0 k"

definition webauth_keyring_remove ::
  "webauth_keyring \<Rightarrow> nat \<Rightarrow> wa_status \<times> webauth_keyring" where
  "webauth_keyring_remove ring n =
     (if n \<ge> length ring then (WA_ERR_NOT_FOUND, ring)
      else (WA_ERR_NONE, take n ring @ drop (Suc n) ring))"

text \<open>
  The loop of \<^verbatim>\<open>webauth_keyring_best_key\<close>: \<open>i\<close> is the index of the entry at the head
  of the remaining entries, \<open>best\<close> is the pointer into the array kept by the code, as
  the index it points at.
\<close>

fun best_key_loop ::
  "time_t \<Rightarrow> webauth_key_usage \<Rightarrow> time_t \<Rightarrow> webauth_keyring \<Rightarrow> nat \<Rightarrow>
   webauth_keyring_entry list \<Rightarrow> nat option \<Rightarrow> nat option" where
  "best_key_loop now usage hint ring i [] best = best"
| "best_key_loop now usage hint ring i (entry # rest) best =
     (let valid = valid_after entry in
      if valid > now then best_key_loop now usage hint ring (Suc i) rest best
      else if usage = WA_KEY_ENCRYPT then
        (if (case best of None \<Rightarrow> True | Some b \<Rightarrow> valid > valid_after (ring ! b))
         then best_key_loop now usage hint ring (Suc i) rest (Some i)
         else best_key_loop now usage hint ring (Suc i) rest best)
      else
        (if hint \<ge> valid \<and> (case best of None \<Rightarrow> True | Some b \<Rightarrow> valid \<ge> valid_after (ring ! b))
         then best_key_loop now usage hint ring (Suc i) rest (Some i)
         else best_key_loop now usage hint ring (Suc i) rest best))"

definition best_key_index ::
  "time_t \<Rightarrow> webauth_keyring \<Rightarrow> webauth_key_usage \<Rightarrow> time_t \<Rightarrow> nat option" where
  "best_key_index now ring usage hint = best_key_loop now usage hint ring 0 ring None"

definition webauth_keyring_best_key ::
  "time_t \<Rightarrow> webauth_keyring \<Rightarrow> webauth_key_usage \<Rightarrow> time_t \<Rightarrow>
   wa_status \<times> webauth_key option" where
  "webauth_keyring_best_key now ring usage hint =
     (case best_key_index now ring usage hint of
        None \<Rightarrow> (WA_ERR_NOT_FOUND, None)
      | Some b \<Rightarrow> (WA_ERR_NONE, Some (key (ring ! b))))"

subsection \<open>The serialised keyring and the library context\<close>

text \<open>
  \<^verbatim>\<open>struct wai_keyring\<close> is the form of a keyring that the attribute codec reads and
  writes.  Its \<^verbatim>\<open>entry_count\<close> is the length of its \<^verbatim>\<open>entry\<close> array.
\<close>

record wai_keyring_entry =
  wai_creation :: time_t
  wai_valid_after :: time_t
  wai_key_type :: nat
  wai_key :: bytes
  wai_key_len :: nat

record wai_keyring =
  version :: nat
  entry :: "wai_keyring_entry list"

definition entry_count :: "wai_keyring \<Rightarrow> nat" where
  "entry_count data = length (entry data)"

text \<open>
  The context stands for what the keyring code calls but does not define: the attribute
  codec applied to \<^verbatim>\<open>wai_keyring_encoding\<close> (\<^verbatim>\<open>webauth_encode\<close>, \<^verbatim>\<open>webauth_decode\<close>) and
  the random source behind key generation, which yields the requested number of bytes
  or fails.
\<close>

record webauth_context =
  webauth_encode :: "wai_keyring \<Rightarrow> wa_status \<times> bytes"
  webauth_decode :: "bytes \<Rightarrow> wa_status \<times> wai_keyring"
  random_bytes :: "nat \<Rightarrow> bytes option"

text \<open>
  Modelled from the spec: \<^verbatim>\<open>webauth_key_create\<close> (lib/keys.c is not among the
  sources).  A key has type AES and a length of 16, 24 or 32 bytes, and its material is
  exactly that long; an invalid key object is \<^verbatim>\<open>BAD_KEY\<close>; without material the key is
  drawn from the random source, whose failure is \<^verbatim>\<open>RAND_FAILURE\<close>.
\<close>

definition webauth_key_create ::
  "webauth_context \<Rightarrow> nat \<Rightarrow> nat \<Rightarrow> bytes option \<Rightarrow> wa_status \<times> webauth_key option" where
  "webauth_key_create ctx ktype ksize key_material =
     (if ktype \<noteq> WA_KEY_AES then (WA_ERR_BAD_KEY, None)
      else if ksize \<noteq> 16 \<and> ksize \<noteq> 24 \<and> ksize \<noteq> 32 then (WA_ERR_BAD_KEY, None)
      else case key_material of
        Some m \<Rightarrow>
          (WA_ERR_NONE, Some \<lparr>key_type = ktype, key_length = ksize, key_data = take ksize m\<rparr>)
      | None \<Rightarrow>
          (case random_bytes ctx ksize of
             None \<Rightarrow> (WA_ERR_RAND_FAILURE, None)
           | Some r \<Rightarrow>
               (WA_ERR_NONE,
                Some \<lparr>key_type = ktype, key_length = ksize, key_data = take ksize r\<rparr>)))"

subsection \<open>Decoding and encoding a keyring\<close>

fun keyring_decode_entries ::
  "webauth_context \<Rightarrow> wai_keyring_entry list \<Rightarrow> webauth_keyring \<Rightarrow>
   wa_status \<times> webauth_keyring option" where
  "keyring_decode_entries ctx [] ring = (WA_ERR_NONE, Some ring)"
| "keyring_decode_entries ctx (e # rest) ring =
     (case webauth_key_create ctx (wai_key_type e) (wai_key_len e) (Some (wai_key e)) of
        (status, None) \<Rightarrow> (status, None)
      | (status, Some k) \<Rightarrow>
          if status \<noteq> WA_ERR_NONE then (status, None)
          else keyring_decode_entries ctx rest
                 (webauth_keyring_add ring (wai_creation e) (wai_valid_after e) k))"

definition webauth_keyring_decode ::
  "webauth_context \<Rightarrow> bytes \<Rightarrow> wa_status \<times> webauth_keyring option" where
  "webauth_keyring_decode ctx input =
     (case webauth_decode ctx input of
        (status, data) \<Rightarrow>
          if status \<noteq> WA_ERR_NONE then (status, None)
          else if version data \<noteq> KEYRING_VERSION then (WA_ERR_FILE_VERSION, None)
          else keyring_decode_entries ctx (entry data)
                 (webauth_keyring_new (entry_count data)))"

definition wai_of_entry :: "webauth_keyring_entry \<Rightarrow> wai_keyring_entry" where
  "wai_of_entry e =
     \<lparr>wai_creation = creation e, wai_valid_after = valid_after e,
      wai_key_type = key_type (key e), wai_key = key_data (key e),
      wai_key_len = key_length (key e)\<rparr>"

definition webauth_keyring_encode ::
  "webauth_context \<Rightarrow> webauth_keyring \<Rightarrow> wa_status \<times> bytes" where
  "webauth_keyring_encode ctx ring =
     webauth_encode ctx \<lparr>version = KEYRING_VERSION, entry = map wai_of_entry ring\<rparr>"

subsection \<open>Files\<close>

text \<open>
  The files of interest are a map from path to contents.  What the operating system
  decides in a call is an argument of the call: \<open>apr_io\<close> holds the status of each APR
  operation \<^verbatim>\<open>webauth_keyring_write\<close> makes (\<open>0\<close> is \<^verbatim>\<open>APR_SUCCESS\<close>), the six
  characters \<^verbatim>\<open>apr_file_mktemp\<close> puts in place of \<^verbatim>\<open>XXXXXX\<close>, and how many bytes
  reached the file when the write failed.
\<close>

type_synonym filesystem = "string \<rightharpoonup> bytes"

record apr_io =
  mktemp_status :: nat
  mktemp_suffix :: string
  write_status :: nat
  write_partial :: nat
  close_status :: nat
  rename_status :: nat

definition APR_SUCCESS :: nat where
  "APR_SUCCESS = 0"

datatype read_outcome = Read_Ok | Open_Failed | Read_Failed

text \<open>
  Modelled from the spec: \<^verbatim>\<open>wai_file_read\<close> (not among the sources).  Reading fails
  with \<^verbatim>\<open>FILE_NOT_FOUND\<close> for a missing file, with \<^verbatim>\<open>FILE_OPENREAD\<close> or \<^verbatim>\<open>FILE_READ\<close>
  when opening or reading fails, and yields the contents otherwise.
\<close>

definition wai_file_read ::
  "read_outcome \<Rightarrow> filesystem \<Rightarrow> string \<Rightarrow> wa_status \<times> bytes option" where
  "wai_file_read ro fs path =
     (case fs path of
        None \<Rightarrow> (WA_ERR_FILE_NOT_FOUND, None)
      | Some buf \<Rightarrow>
          (case ro of
             Read_Ok \<Rightarrow> (WA_ERR_NONE, Some buf)
           | Open_Failed \<Rightarrow> (WA_ERR_FILE_OPENREAD, None)
           | Read_Failed \<Rightarrow> (WA_ERR_FILE_READ, None)))"

definition webauth_keyring_read ::
  "webauth_context \<Rightarrow> read_outcome \<Rightarrow> filesystem \<Rightarrow> string \<Rightarrow>
   wa_status \<times> webauth_keyring option" where
  "webauth_keyring_read ctx ro fs path =
     (case wai_file_read ro fs path of
        (status, None) \<Rightarrow> (status, None)
      | (status, Some buf) \<Rightarrow>
          if status \<noteq> WA_ERR_NONE then (status, None)
          else webauth_keyring_decode ctx buf)"

text \<open>
  The label \<^verbatim>\<open>done\<close> of \<^verbatim>\<open>webauth_keyring_write\<close>: the temporary file is closed and
  removed when the handle \<^verbatim>\<open>file\<close> is not \<^verbatim>\<open>NULL\<close>, and only then.
\<close>

definition keyring_write_done ::
  "bool \<Rightarrow> string \<Rightarrow> wa_status \<Rightarrow> filesystem \<Rightarrow> wa_status \<times> filesystem" where
  "keyring_write_done file_open temp s fs =
     (if file_open then (s, fs(temp := None)) else (s, fs))"

definition keyring_temp_name :: "apr_io \<Rightarrow> string \<Rightarrow> string" where
  "keyring_temp_name io path = path @ ''.'' @ mktemp_suffix io"

definition webauth_keyring_write ::
  "webauth_context \<Rightarrow> apr_io \<Rightarrow> webauth_keyring \<Rightarrow> string \<Rightarrow> filesystem \<Rightarrow>
   wa_status \<times> filesystem" where
  "webauth_keyring_write ctx io ring path fs =
     (let temp = keyring_temp_name io path in
      if mktemp_status io \<noteq> APR_SUCCESS
      then keyring_write_done False temp WA_ERR_FILE_OPENWRITE fs
      else
        let fs1 = fs(temp \<mapsto> []) in
        case webauth_keyring_encode ctx ring of
          (s, buf) \<Rightarrow>
            if s \<noteq> WA_ERR_NONE then keyring_write_done True temp s fs1
            else if write_status io \<noteq> APR_SUCCESS
            then keyring_write_done True temp WA_ERR_FILE_WRITE
                   (fs1(temp \<mapsto> take (write_partial io) buf))
            else
              let fs2 = fs1(temp \<mapsto> buf) in
              if close_status io \<noteq> APR_SUCCESS
              then keyring_write_done False temp WA_ERR_FILE_WRITE fs2
              else if rename_status io \<noteq> APR_SUCCESS
              then keyring_write_done False temp WA_ERR_FILE_WRITE fs2
              else keyring_write_done False temp WA_ERR_NONE
                     (fs2(path \<mapsto> buf, temp := None)))"

subsection \<open>Automatic update\<close>

datatype webauth_kau_status = WA_KAU_NONE | WA_KAU_CREATE | WA_KAU_UPDATE

definition new_ring ::
  "webauth_context \<Rightarrow> apr_io \<Rightarrow> time_t \<Rightarrow> string \<Rightarrow> filesystem \<Rightarrow>
   wa_status \<times> webauth_keyring option \<times> filesystem" where
  "new_ring ctx io now path fs =
     (case webauth_key_create ctx WA_KEY_AES WA_AES_128 None of
        (status, None) \<Rightarrow> (status, None, fs)
      | (status, Some k) \<Rightarrow>
          if status \<noteq> WA_ERR_NONE then (status, None, fs)
          else
            let ring = webauth_keyring_add (webauth_keyring_new 1) now now k in
            case webauth_keyring_write ctx io ring path fs of
              (s, fs') \<Rightarrow> (s, Some ring, fs'))"

text \<open>
  The first loop of \<^verbatim>\<open>check_ring\<close>: is there an entry for which
  \<^verbatim>\<open>entry->valid_after + (time_t) lifetime > now\<close>?  The cast of the
  \<^verbatim>\<open>unsigned long\<close> lifetime gives a negative \<^verbatim>\<open>time_t\<close> from \<open>2 ^ 63\<close> on, and the sum
  is a \<^verbatim>\<open>time_t\<close> again.
\<close>

fun check_ring_recent :: "time_t \<Rightarrow> nat \<Rightarrow> webauth_keyring_entry list \<Rightarrow> bool" where
  "check_ring_recent now lifetime [] = False"
| "check_ring_recent now lifetime (e # rest) =
     (if to_time_t (valid_after e + to_time_t (int lifetime)) > now then True
      else check_ring_recent now lifetime rest)"

definition check_ring ::
  "webauth_context \<Rightarrow> apr_io \<Rightarrow> time_t \<Rightarrow> string \<Rightarrow> nat \<Rightarrow> webauth_keyring \<Rightarrow>
   webauth_kau_status \<Rightarrow> filesystem \<Rightarrow>
   wa_status \<times> webauth_keyring \<times> webauth_kau_status \<times> filesystem" where
  "check_ring ctx io now path lifetime ring updated fs =
     (if check_ring_recent now lifetime ring then (WA_ERR_NONE, ring, updated, fs)
      else
        case webauth_key_create ctx WA_KEY_AES WA_AES_128 None of
          (status, None) \<Rightarrow> (status, ring, WA_KAU_UPDATE, fs)
        | (status, Some k) \<Rightarrow>
            if status \<noteq> WA_ERR_NONE then (status, ring, WA_KAU_UPDATE, fs)
            else
              let ring' = webauth_keyring_add ring now now k in
              case webauth_keyring_write ctx io ring' path fs of
                (s, fs') \<Rightarrow> (s, ring', WA_KAU_UPDATE, fs'))"

text \<open>The result of \<^verbatim>\<open>webauth_keyring_auto_update\<close>: its return value, its three output
  arguments, and the files it leaves.\<close>

record kau_result =
  kau_return :: wa_status
  kau_ring :: "webauth_keyring option"
  kau_updated :: webauth_kau_status
  kau_update_status :: wa_status
  kau_files :: filesystem

definition webauth_keyring_auto_update ::
  "webauth_context \<Rightarrow> read_outcome \<Rightarrow> apr_io \<Rightarrow> time_t \<Rightarrow> string \<Rightarrow> bool \<Rightarrow> nat \<Rightarrow>
   filesystem \<Rightarrow> kau_result" where
  "webauth_keyring_auto_update ctx ro io now path create lifetime fs =
     (case webauth_keyring_read ctx ro fs path of
        (status, None) \<Rightarrow>
          if \<not> create \<or> status \<noteq> WA_ERR_FILE_NOT_FOUND
          then \<lparr>kau_return = status, kau_ring = None, kau_updated = WA_KAU_NONE,
                kau_update_status = WA_ERR_NONE, kau_files = fs\<rparr>
          else
            (case new_ring ctx io now path fs of
               (s, r, fs') \<Rightarrow>
                 \<lparr>kau_return = s, kau_ring = r, kau_updated = WA_KAU_CREATE,
                  kau_update_status = WA_ERR_NONE, kau_files = fs'\<rparr>)
      | (status, Some ring) \<Rightarrow>
          if lifetime > 0
          then
            (case check_ring ctx io now path lifetime ring WA_KAU_NONE fs of
               (s, ring', updated, fs') \<Rightarrow>
                 \<lparr>kau_return = status, kau_ring = Some ring', kau_updated = updated,
                  kau_update_status = s, kau_files = fs'\<rparr>)
          else \<lparr>kau_return = status, kau_ring = Some ring, kau_updated = WA_KAU_NONE,
                kau_update_status = WA_ERR_NONE, kau_files = fs\<rparr>)"

section \<open>Tokens (lib/token-encode.c)\<close>

text \<open>
  The token structs are declared in a header that is not among the sources; each record
  has the members that lib/token-encode.c reads.  A \<^verbatim>\<open>char *\<close> member is an optional
  string, \<open>None\<close> for \<^verbatim>\<open>NULL\<close>; a data pointer with its \<^verbatim>\<open>_len\<close> member is an
  optional byte string whose length is the \<^verbatim>\<open>_len\<close>.
\<close>

record webauth_token_app =
  app_subject :: "string option"
  app_authz_subject :: "string option"
  app_last_used :: time_t
  app_session_key :: "bytes option"
  app_initial_factors :: "string option"
  app_session_factors :: "string option"
  app_loa :: nat
  app_expiration :: time_t

record webauth_token_cred =
  cred_subject :: "string option"
  cred_type :: "string option"
  cred_service :: "string option"
  cred_data :: "bytes option"
  cred_expiration :: time_t

record webauth_token_error =
  error_code :: nat
  error_message :: "string option"

record webauth_token_id =
  id_subject :: "string option"
  id_auth :: "string option"
  id_auth_data :: "bytes option"
  id_expiration :: time_t

record webauth_token_login =
  login_username :: "string option"
  login_password :: "string option"
  login_otp :: "string option"
  login_otp_type :: "string option"

record webauth_token_proxy =
  proxy_subject :: "string option"
  proxy_type :: "string option"
  proxy_webkdc_proxy :: "bytes option"
  proxy_expiration :: time_t

record webauth_token_request =
  request_type :: "string option"
  request_auth :: "string option"
  request_proxy_type :: "string option"
  request_state :: "bytes option"
  request_return_url :: "string option"
  request_options :: "string option"
  request_initial_factors :: "string option"
  request_session_factors :: "string option"
  request_command :: "string option"

record webauth_token_webkdc_factor =
  webkdc_factor_subject :: "string option"
  webkdc_factor_initial_factors :: "string option"
  webkdc_factor_session_factors :: "string option"
  webkdc_factor_expiration :: time_t

record webauth_token_webkdc_proxy =
  webkdc_proxy_subject :: "string option"
  webkdc_proxy_proxy_type :: "string option"
  webkdc_proxy_proxy_subject :: "string option"
  webkdc_proxy_expiration :: time_t

record webauth_token_webkdc_service =
  webkdc_service_subject :: "string option"
  webkdc_service_session_key :: "bytes option"
  webkdc_service_expiration :: time_t

datatype webauth_token_type =
    WA_TOKEN_UNKNOWN
  | WA_TOKEN_APP
  | WA_TOKEN_CRED
  | WA_TOKEN_ERROR
  | WA_TOKEN_ID
  | WA_TOKEN_LOGIN
  | WA_TOKEN_PROXY
  | WA_TOKEN_REQUEST
  | WA_TOKEN_WEBKDC_FACTOR
  | WA_TOKEN_WEBKDC_PROXY
  | WA_TOKEN_WEBKDC_SERVICE
  | WA_TOKEN_ANY

text \<open>
  \<^verbatim>\<open>struct webauth_token\<close> is a type tag and a union; the token is the member the tag
  selects.  \<open>Token_Unknown\<close> and \<open>Token_Any\<close> are the structs tagged with one of the two
  values that select no member.
\<close>

datatype webauth_token =
    Token_App webauth_token_app
  | Token_Cred webauth_token_cred
  | Token_Error webauth_token_error
  | Token_Id webauth_token_id
  | Token_Login webauth_token_login
  | Token_Proxy webauth_token_proxy
  | Token_Request webauth_token_request
  | Token_Webkdc_Factor webauth_token_webkdc_factor
  | Token_Webkdc_Proxy webauth_token_webkdc_proxy
  | Token_Webkdc_Service webauth_token_webkdc_service
  | Token_Unknown
  | Token_Any

fun token_type :: "webauth_token \<Rightarrow> webauth_token_type" where
  "token_type (Token_App _) = WA_TOKEN_APP"
| "token_type (Token_Cred _) = WA_TOKEN_CRED"
| "token_type (Token_Error _) = WA_TOKEN_ERROR"
| "token_type (Token_Id _) = WA_TOKEN_ID"
| "token_type (Token_Login _) = WA_TOKEN_LOGIN"
| "token_type (Token_Proxy _) = WA_TOKEN_PROXY"
| "token_type (Token_Request _) = WA_TOKEN_REQUEST"
| "token_type (Token_Webkdc_Factor _) = WA_TOKEN_WEBKDC_FACTOR"
| "token_type (Token_Webkdc_Proxy _) = WA_TOKEN_WEBKDC_PROXY"
| "token_type (Token_Webkdc_Service _) = WA_TOKEN_WEBKDC_SERVICE"
| "token_type Token_Unknown = WA_TOKEN_UNKNOWN"
| "token_type Token_Any = WA_TOKEN_ANY"

text \<open>The table \<^verbatim>\<open>token_name\<close>; \<^verbatim>\<open>WA_TOKEN_ANY\<close> lies beyond its end.\<close>

fun webauth_token_type_string :: "webauth_token_type \<Rightarrow> string option" where
  "webauth_token_type_string WA_TOKEN_UNKNOWN = Some ''unknown''"
| "webauth_token_type_string WA_TOKEN_APP = Some ''app''"
| "webauth_token_type_string WA_TOKEN_CRED = Some ''cred''"
| "webauth_token_type_string WA_TOKEN_ERROR = Some ''error''"
| "webauth_token_type_string WA_TOKEN_ID = Some ''id''"
| "webauth_token_type_string WA_TOKEN_LOGIN = Some ''login''"
| "webauth_token_type_string WA_TOKEN_PROXY = Some ''proxy''"
| "webauth_token_type_string WA_TOKEN_REQUEST = Some ''req''"
| "webauth_token_type_string WA_TOKEN_WEBKDC_FACTOR = Some ''webkdc-factor''"
| "webauth_token_type_string WA_TOKEN_WEBKDC_PROXY = Some ''webkdc-proxy''"
| "webauth_token_type_string WA_TOKEN_WEBKDC_SERVICE = Some ''webkdc-service''"
| "webauth_token_type_string WA_TOKEN_ANY = None"

datatype encode_mode = ENCODE | DECODE

subsection \<open>The checking macros\<close>

text \<open>Each macro returns \<^verbatim>\<open>WA_ERR_CORRUPT\<close> from the function that uses it when its test
  fails; here it is the status, and the caller goes on only after \<^verbatim>\<open>WA_ERR_NONE\<close>.\<close>

definition CHECK_DATA :: "bytes option \<Rightarrow> wa_status" where
  "CHECK_DATA attr =
     (case attr of
        None \<Rightarrow> WA_ERR_CORRUPT
      | Some d \<Rightarrow> if length d = 0 then WA_ERR_CORRUPT else WA_ERR_NONE)"

definition CHECK_NUM :: "int \<Rightarrow> wa_status" where
  "CHECK_NUM attr = (if attr = 0 then WA_ERR_CORRUPT else WA_ERR_NONE)"

definition CHECK_STR :: "string option \<Rightarrow> wa_status" where
  "CHECK_STR attr = (if attr = None then WA_ERR_CORRUPT else WA_ERR_NONE)"

definition CHECK_NULL :: "'a option \<Rightarrow> wa_status" where
  "CHECK_NULL attr = (if attr \<noteq> None then WA_ERR_CORRUPT else WA_ERR_NONE)"

definition CHECK_ZERO :: "int \<Rightarrow> wa_status" where
  "CHECK_ZERO attr = (if attr \<noteq> 0 then WA_ERR_CORRUPT else WA_ERR_NONE)"

definition check_expiration :: "time_t \<Rightarrow> time_t \<Rightarrow> wa_status" where
  "check_expiration now expiration =
     (if expiration < now then WA_ERR_TOKEN_EXPIRED else WA_ERR_NONE)"

definition CHECK_EXP :: "time_t \<Rightarrow> time_t \<Rightarrow> encode_mode \<Rightarrow> wa_status" where
  "CHECK_EXP now attr mode =
     (if CHECK_NUM attr \<noteq> WA_ERR_NONE then CHECK_NUM attr
      else if mode = DECODE then check_expiration now attr
      else WA_ERR_NONE)"

text \<open>A sequence of checks stops at the first one that fails.\<close>

fun first_failure :: "wa_status list \<Rightarrow> wa_status" where
  "first_failure [] = WA_ERR_NONE"
| "first_failure (s # rest) = (if s \<noteq> WA_ERR_NONE then s else first_failure rest)"

subsection \<open>Checks of enumerated strings\<close>

definition check_cred_type :: "string \<Rightarrow> wa_status" where
  "check_cred_type ctype = (if ctype \<noteq> ''krb5'' then WA_ERR_CORRUPT else WA_ERR_NONE)"

definition check_proxy_type :: "string \<Rightarrow> wa_status" where
  "check_proxy_type ptype = (if ptype \<noteq> ''krb5'' then WA_ERR_CORRUPT else WA_ERR_NONE)"

definition check_subject_auth :: "string \<Rightarrow> wa_status" where
  "check_subject_auth auth =
     (if auth \<noteq> ''krb5'' \<and> auth \<noteq> ''webkdc'' then WA_ERR_CORRUPT else WA_ERR_NONE)"

subsection \<open>Per-kind checks\<close>

definition check_app :: "time_t \<Rightarrow> webauth_token_app \<Rightarrow> encode_mode \<Rightarrow> wa_status" where
  "check_app now app mode =
     (if CHECK_EXP now (app_expiration app) mode \<noteq> WA_ERR_NONE
      then CHECK_EXP now (app_expiration app) mode
      else if app_session_key app = None then CHECK_STR (app_subject app)
      else first_failure
             [CHECK_NULL (app_subject app),
              CHECK_NULL (app_authz_subject app),
              CHECK_ZERO (app_last_used app),
              CHECK_NULL (app_initial_factors app),
              CHECK_NULL (app_session_factors app),
              CHECK_ZERO (int (app_loa app))])"

definition check_cred :: "time_t \<Rightarrow> webauth_token_cred \<Rightarrow> encode_mode \<Rightarrow> wa_status" where
  "check_cred now cred mode =
     (let s = first_failure
                [CHECK_STR (cred_subject cred),
                 CHECK_STR (cred_type cred),
                 CHECK_STR (cred_service cred),
                 CHECK_DATA (cred_data cred),
                 CHECK_EXP now (cred_expiration cred) mode]
      in if s \<noteq> WA_ERR_NONE then s
         else case cred_type cred of
                None \<Rightarrow> WA_ERR_CORRUPT
              | Some ctype \<Rightarrow> check_cred_type ctype)"

definition check_error :: "time_t \<Rightarrow> webauth_token_error \<Rightarrow> encode_mode \<Rightarrow> wa_status" where
  "check_error now err mode =
     first_failure [CHECK_NUM (int (error_code err)), CHECK_STR (error_message err)]"

definition check_id :: "time_t \<Rightarrow> webauth_token_id \<Rightarrow> encode_mode \<Rightarrow> wa_status" where
  "check_id now tid mode =
     (case id_auth tid of
        None \<Rightarrow> WA_ERR_CORRUPT
      | Some auth \<Rightarrow>
          if CHECK_EXP now (id_expiration tid) mode \<noteq> WA_ERR_NONE
          then CHECK_EXP now (id_expiration tid) mode
          else if auth = ''webkdc'' \<and> CHECK_STR (id_subject tid) \<noteq> WA_ERR_NONE
          then WA_ERR_CORRUPT
          else if auth = ''krb5'' \<and> CHECK_DATA (id_auth_data tid) \<noteq> WA_ERR_NONE
          then WA_ERR_CORRUPT
          else check_subject_auth auth)"

definition check_login ::
  "time_t \<Rightarrow> webauth_token_login \<Rightarrow> encode_mode \<Rightarrow> wa_status" where
  "check_login now login mode =
     (if CHECK_STR (login_username login) \<noteq> WA_ERR_NONE then WA_ERR_CORRUPT
      else if login_password login = None \<and> login_otp login = None then WA_ERR_CORRUPT
      else if login_password login \<noteq> None \<and> login_otp login \<noteq> None then WA_ERR_CORRUPT
      else if login_password login \<noteq> None then CHECK_NULL (login_otp_type login)
      else WA_ERR_NONE)"

definition check_proxy ::
  "time_t \<Rightarrow> webauth_token_proxy \<Rightarrow> encode_mode \<Rightarrow> wa_status" where
  "check_proxy now proxy mode =
     (let s = first_failure
                [CHECK_STR (proxy_subject proxy),
                 CHECK_STR (proxy_type proxy),
                 CHECK_DATA (proxy_webkdc_proxy proxy),
                 CHECK_EXP now (proxy_expiration proxy) mode]
      in if s \<noteq> WA_ERR_NONE then s
         else case proxy_type proxy of
                None \<Rightarrow> WA_ERR_CORRUPT
              | Some ptype \<Rightarrow> check_proxy_type ptype)"

definition check_request ::
  "time_t \<Rightarrow> webauth_token_request \<Rightarrow> encode_mode \<Rightarrow> wa_status" where
  "check_request now request mode =
     (if request_command request \<noteq> None
      then first_failure
             [CHECK_NULL (request_type request),
              CHECK_NULL (request_auth request),
              CHECK_NULL (request_proxy_type request),
              CHECK_NULL (request_state request),
              CHECK_NULL (request_return_url request),
              CHECK_NULL (request_options request),
              CHECK_NULL (request_initial_factors request),
              CHECK_NULL (request_session_factors request)]
      else
        case request_type request of
          None \<Rightarrow> WA_ERR_CORRUPT
        | Some rtype \<Rightarrow>
            if CHECK_STR (request_return_url request) \<noteq> WA_ERR_NONE then WA_ERR_CORRUPT
            else if rtype = ''id'' then
              (case request_auth request of
                 None \<Rightarrow> WA_ERR_CORRUPT
               | Some auth \<Rightarrow> check_subject_auth auth)
            else if rtype = ''proxy'' then
              (case request_proxy_type request of
                 None \<Rightarrow> WA_ERR_CORRUPT
               | Some ptype \<Rightarrow> check_proxy_type ptype)
            else WA_ERR_CORRUPT)"

definition check_webkdc_factor ::
  "time_t \<Rightarrow> webauth_token_webkdc_factor \<Rightarrow> encode_mode \<Rightarrow> wa_status" where
  "check_webkdc_factor now webkdc_factor mode =
     (let s = first_failure
                [CHECK_STR (webkdc_factor_subject webkdc_factor),
                 CHECK_EXP now (webkdc_factor_expiration webkdc_factor) mode]
      in if s \<noteq> WA_ERR_NONE then s
         else if webkdc_factor_initial_factors webkdc_factor = None
                 \<and> webkdc_factor_session_factors webkdc_factor = None
         then WA_ERR_CORRUPT
         else WA_ERR_NONE)"

definition check_webkdc_proxy ::
  "time_t \<Rightarrow> webauth_token_webkdc_proxy \<Rightarrow> encode_mode \<Rightarrow> wa_status" where
  "check_webkdc_proxy now webkdc_proxy mode =
     (let s = first_failure
                [CHECK_STR (webkdc_proxy_subject webkdc_proxy),
                 CHECK_STR (webkdc_proxy_proxy_type webkdc_proxy),
                 CHECK_STR (webkdc_proxy_proxy_subject webkdc_proxy),
                 CHECK_EXP now (webkdc_proxy_expiration webkdc_proxy) mode]
      in if s \<noteq> WA_ERR_NONE then s
         else case webkdc_proxy_proxy_type webkdc_proxy of
                None \<Rightarrow> WA_ERR_CORRUPT
              | Some ptype \<Rightarrow>
                  if ptype \<noteq> ''krb5'' \<and> ptype \<noteq> ''remuser'' \<and> ptype \<noteq> ''otp''
                  then WA_ERR_CORRUPT
                  else WA_ERR_NONE)"

definition check_webkdc_service ::
  "time_t \<Rightarrow> webauth_token_webkdc_service \<Rightarrow> encode_mode \<Rightarrow> wa_status" where
  "check_webkdc_service now webkdc_service mode =
     first_failure
       [CHECK_STR (webkdc_service_subject webkdc_service),
        CHECK_DATA (webkdc_service_session_key webkdc_service),
        CHECK_EXP now (webkdc_service_expiration webkdc_service) mode]"

fun check_token :: "time_t \<Rightarrow> webauth_token \<Rightarrow> encode_mode \<Rightarrow> wa_status" where
  "check_token now (Token_App app) mode = check_app now app mode"
| "check_token now (Token_Cred cred) mode = check_cred now cred mode"
| "check_token now (Token_Error err) mode = check_error now err mode"
| "check_token now (Token_Id tid) mode = check_id now tid mode"
| "check_token now (Token_Login login) mode = check_login now login mode"
| "check_token now (Token_Proxy proxy) mode = check_proxy now proxy mode"
| "check_token now (Token_Request request) mode = check_request now request mode"
| "check_token now (Token_Webkdc_Factor f) mode = check_webkdc_factor now f mode"
| "check_token now (Token_Webkdc_Proxy p) mode = check_webkdc_proxy now p mode"
| "check_token now (Token_Webkdc_Service s) mode = check_webkdc_service now s mode"
| "check_token now Token_Unknown mode = WA_ERR_INVALID"
| "check_token now Token_Any mode = WA_ERR_INVALID"

subsection \<open>Encoding and decoding\<close>

text \<open>
  What the token code calls but does not define is a record of functions: the attribute
  codec applied to the rules of the token's kind (\<^verbatim>\<open>wai_encode_token\<close>,
  \<^verbatim>\<open>wai_decode_token\<close>), authenticated encryption of a payload under one key (\<open>seal\<close>,
  \<open>unseal\<close>) with the key's hint, and base64 (\<^verbatim>\<open>apr_base64_encode\<close>,
  \<^verbatim>\<open>apr_base64_decode\<close>).
\<close>

record token_context =
  wai_encode_token :: "webauth_token \<Rightarrow> wa_status \<times> bytes"
  wai_decode_token :: "bytes \<Rightarrow> wa_status \<times> webauth_token"
  seal :: "webauth_key \<Rightarrow> bytes \<Rightarrow> wa_status \<times> bytes"
  unseal :: "webauth_key \<Rightarrow> bytes \<Rightarrow> wa_status \<times> bytes"
  key_hint :: "webauth_key \<Rightarrow> bytes"
  apr_base64_encode :: "bytes \<Rightarrow> string"
  apr_base64_decode :: "string \<Rightarrow> bytes"

text \<open>
  Modelled from the spec: \<^verbatim>\<open>webauth_token_encrypt\<close> (not among the sources).  An empty
  keyring on encode is \<^verbatim>\<open>BAD_KEY\<close>; the key is \<open>best_key(ENCRYPT, 0)\<close>, whose failure is
  returned; the payload is sealed under that key.
\<close>

definition webauth_token_encrypt ::
  "token_context \<Rightarrow> time_t \<Rightarrow> bytes \<Rightarrow> webauth_keyring \<Rightarrow> wa_status \<times> bytes" where
  "webauth_token_encrypt tc now input ring =
     (if ring = [] then (WA_ERR_BAD_KEY, [])
      else case webauth_keyring_best_key now ring WA_KEY_ENCRYPT 0 of
             (status, None) \<Rightarrow> (status, [])
           | (status, Some k) \<Rightarrow> seal tc k input)"

text \<open>
  Modelled from the spec: \<^verbatim>\<open>webauth_token_decrypt\<close> (not among the sources).  The
  entries whose key hint matches the first four bytes of the token are tried first, then
  all others; the first key that passes authentication decides; the result is
  \<^verbatim>\<open>BAD_HMAC\<close> only if every key fails authentication, and a malformed token is the
  failure \<open>unseal\<close> reports for it.
\<close>

fun try_keys ::
  "token_context \<Rightarrow> bytes \<Rightarrow> webauth_key list \<Rightarrow> wa_status \<times> bytes" where
  "try_keys tc input [] = (WA_ERR_BAD_HMAC, [])"
| "try_keys tc input (k # ks) =
     (case unseal tc k input of
        (status, output) \<Rightarrow>
          if status = WA_ERR_NONE then (WA_ERR_NONE, output)
          else if status = WA_ERR_BAD_HMAC then try_keys tc input ks
          else (status, []))"

definition webauth_token_decrypt ::
  "token_context \<Rightarrow> bytes \<Rightarrow> webauth_keyring \<Rightarrow> wa_status \<times> bytes" where
  "webauth_token_decrypt tc input ring =
     try_keys tc input
       (map key (filter (\<lambda>e. key_hint tc (key e) = take 4 input) ring)
        @ map key (filter (\<lambda>e. key_hint tc (key e) \<noteq> take 4 input) ring))"

definition webauth_token_decode_raw ::
  "token_context \<Rightarrow> time_t \<Rightarrow> webauth_token_type \<Rightarrow> bytes \<Rightarrow> webauth_keyring \<Rightarrow>
   wa_status \<times> webauth_token option" where
  "webauth_token_decode_raw tc now ttype token ring =
     (if webauth_token_type_string ttype = None \<and> ttype \<noteq> WA_TOKEN_ANY
      then (WA_ERR_INVALID, None)
      else
        case webauth_token_decrypt tc token ring of
          (status, attrs) \<Rightarrow>
            if status \<noteq> WA_ERR_NONE then (status, None)
            else
              case wai_decode_token tc attrs of
                (status, out) \<Rightarrow>
                  if status \<noteq> WA_ERR_NONE then (status, None)
                  else if ttype \<noteq> WA_TOKEN_ANY \<and> ttype \<noteq> token_type out
                  then (WA_ERR_CORRUPT, None)
                  else if check_token now out DECODE \<noteq> WA_ERR_NONE
                  then (check_token now out DECODE, None)
                  else (WA_ERR_NONE, Some out))"

definition webauth_token_decode ::
  "token_context \<Rightarrow> time_t \<Rightarrow> webauth_token_type \<Rightarrow> string option \<Rightarrow> webauth_keyring \<Rightarrow>
   wa_status \<times> webauth_token option" where
  "webauth_token_decode tc now ttype token ring =
     (case token of
        None \<Rightarrow> (WA_ERR_CORRUPT, None)
      | Some t \<Rightarrow> webauth_token_decode_raw tc now ttype (apr_base64_decode tc t) ring)"

definition webauth_token_encode_raw ::
  "token_context \<Rightarrow> time_t \<Rightarrow> webauth_token \<Rightarrow> webauth_keyring option \<Rightarrow>
   wa_status \<times> bytes option" where
  "webauth_token_encode_raw tc now data ring =
     (case ring of
        None \<Rightarrow> (WA_ERR_BAD_KEY, None)
      | Some r \<Rightarrow>
          if check_token now data ENCODE \<noteq> WA_ERR_NONE
          then (check_token now data ENCODE, None)
          else
            case wai_encode_token tc data of
              (status, attrs) \<Rightarrow>
                if status \<noteq> WA_ERR_NONE then (status, None)
                else
                  case webauth_token_encrypt tc now attrs r of
                    (status, output) \<Rightarrow>
                      if status \<noteq> WA_ERR_NONE then (status, None)
                      else (WA_ERR_NONE, Some output))"

definition webauth_token_encode ::
  "token_context \<Rightarrow> time_t \<Rightarrow> webauth_token \<Rightarrow> webauth_keyring option \<Rightarrow>
   wa_status \<times> string option" where
  "webauth_token_encode tc now data ring =
     (case webauth_token_encode_raw tc now data ring of
        (status, None) \<Rightarrow> (status, None)
      | (status, Some raw) \<Rightarrow>
          if status \<noteq> WA_ERR_NONE then (status, None)
          else (status, Some (apr_base64_encode tc raw)))"

section \<open>Predicates and example values used in the statements\<close>

text \<open>
  The invariant of the encryption branch of the loop in \<^verbatim>\<open>webauth_keyring_best_key\<close>
  after the first \<open>n\<close> entries: no entry so far is valid yet, or \<open>best\<close> is the first
  of the valid entries so far that have the greatest \<^verbatim>\<open>valid_after\<close>.
\<close>

definition encrypt_best :: "time_t \<Rightarrow> webauth_keyring \<Rightarrow> nat \<Rightarrow> nat option \<Rightarrow> bool" where
  "encrypt_best now ring n best =
     (case best of
        None \<Rightarrow> (\<forall>j<n. now < valid_after (ring ! j))
      | Some b \<Rightarrow>
          b < n \<and> valid_after (ring ! b) \<le> now \<and>
          (\<forall>j<n. valid_after (ring ! j) \<le> now \<longrightarrow>
             valid_after (ring ! j) \<le> valid_after (ring ! b)) \<and>
          (\<forall>j<b. valid_after (ring ! j) \<le> now \<longrightarrow>
             valid_after (ring ! j) < valid_after (ring ! b)))"

definition key_A :: webauth_key where
  "key_A = \<lparr>key_type = 1, key_length = 16, key_data = ''AAAAAAAAAAAAAAAA''\<rparr>"

definition key_B :: webauth_key where
  "key_B = \<lparr>key_type = 1, key_length = 16, key_data = ''BBBBBBBBBBBBBBBB''\<rparr>"

text \<open>Two entries that became valid at the same time, \<open>key_A\<close> inserted first.\<close>

definition ring_tie :: webauth_keyring where
  "ring_tie =
     [\<lparr>creation = 1, valid_after = 5, key = key_A\<rparr>,
      \<lparr>creation = 2, valid_after = 5, key = key_B\<rparr>]"

text \<open>A key as \<^verbatim>\<open>webauth_key_create\<close> makes it.\<close>

definition key_ok :: "webauth_key \<Rightarrow> bool" where
  "key_ok k =
     (key_type k = WA_KEY_AES \<and> (key_length k = 16 \<or> key_length k = 24 \<or> key_length k = 32)
      \<and> length (key_data k) \<le> key_length k)"

definition wai_of_ring :: "webauth_keyring \<Rightarrow> wai_keyring" where
  "wai_of_ring ring = \<lparr>version = KEYRING_VERSION, entry = map wai_of_entry ring\<rparr>"

text \<open>
  An example context.  Its codec knows five keyring files: \<open>''old''\<close> holds \<open>key_A\<close>,
  valid since 1000; \<open>''new''\<close> holds \<open>key_A\<close> and then \<open>key_R\<close>, valid since 200000;
  \<open>''newer''\<close> holds the keys of \<open>''new''\<close> and then \<open>key_R\<close> once more, valid since
  200000 as well; \<open>''v2''\<close> is \<open>''old''\<close> with the version attribute 2; \<open>''bad''\<close> is
  \<open>''new''\<close> with the material of the second key cut to five bytes.  Its random source
  yields the material of \<open>key_R\<close>.
\<close>

definition key_R :: webauth_key where
  "key_R = \<lparr>key_type = 1, key_length = 16, key_data = ''RRRRRRRRRRRRRRRR''\<rparr>"

definition ring_old :: webauth_keyring where
  "ring_old = [\<lparr>creation = 1000, valid_after = 1000, key = key_A\<rparr>]"

definition ring_new :: webauth_keyring where
  "ring_new = [\<lparr>creation = 1000, valid_after = 1000, key = key_A\<rparr>,
               \<lparr>creation = 200000, valid_after = 200000, key = key_R\<rparr>]"

definition ring_newer :: webauth_keyring where
  "ring_newer = [\<lparr>creation = 1000, valid_after = 1000, key = key_A\<rparr>,
                 \<lparr>creation = 200000, valid_after = 200000, key = key_R\<rparr>,
                 \<lparr>creation = 200000, valid_after = 200000, key = key_R\<rparr>]"

definition data_bad :: wai_keyring where
  "data_bad =
     \<lparr>version = 1,
      entry =
        [wai_of_entry \<lparr>creation = 1000, valid_after = 1000, key = key_A\<rparr>,
         \<lparr>wai_creation = 200000, wai_valid_after = 200000, wai_key_type = 1,
          wai_key = ''RRRRR'', wai_key_len = 5\<rparr>]\<rparr>"

definition example_encode :: "wai_keyring \<Rightarrow> wa_status \<times> bytes" where
  "example_encode data =
     (if data = wai_of_ring ring_old then (WA_ERR_NONE, ''old'')
      else if data = wai_of_ring ring_new then (WA_ERR_NONE, ''new'')
      else if data = wai_of_ring ring_newer then (WA_ERR_NONE, ''newer'')
      else (WA_ERR_CORRUPT, []))"

definition example_decode :: "bytes \<Rightarrow> wa_status \<times> wai_keyring" where
  "example_decode input =
     (if input = ''old'' then (WA_ERR_NONE, wai_of_ring ring_old)
      else if input = ''new'' then (WA_ERR_NONE, wai_of_ring ring_new)
      else if input = ''v2'' then (WA_ERR_NONE, (wai_of_ring ring_old)\<lparr>version := 2\<rparr>)
      else if input = ''bad'' then (WA_ERR_NONE, data_bad)
      else if input = ''newer'' then (WA_ERR_NONE, wai_of_ring ring_newer)
      else (WA_ERR_CORRUPT, \<lparr>version = 0, entry = []\<rparr>))"

definition example_ctx :: webauth_context where
  "example_ctx =
     \<lparr>webauth_encode = example_encode, webauth_decode = example_decode,
      random_bytes = (\<lambda>n. Some ''RRRRRRRRRRRRRRRRRRRRRRRRRRRRRRRR'')\<rparr>"

definition io_ok :: apr_io where
  "io_ok = \<lparr>mktemp_status = 0, mktemp_suffix = ''a1B2c3'', write_status = 0,
            write_partial = 0, close_status = 0, rename_status = 0\<rparr>"

text \<open>The expiration time of a token, for the kinds that have one.\<close>

fun token_expiration :: "webauth_token \<Rightarrow> time_t option" where
  "token_expiration (Token_App app) = Some (app_expiration app)"
| "token_expiration (Token_Cred cred) = Some (cred_expiration cred)"
| "token_expiration (Token_Id tid) = Some (id_expiration tid)"
| "token_expiration (Token_Proxy proxy) = Some (proxy_expiration proxy)"
| "token_expiration (Token_Webkdc_Factor f) = Some (webkdc_factor_expiration f)"
| "token_expiration (Token_Webkdc_Proxy p) = Some (webkdc_proxy_expiration p)"
| "token_expiration (Token_Webkdc_Service s) = Some (webkdc_service_expiration s)"
| "token_expiration (Token_Error err) = None"
| "token_expiration (Token_Login login) = None"
| "token_expiration (Token_Request request) = None"
| "token_expiration Token_Unknown = None"
| "token_expiration Token_Any = None"

text \<open>
  The contract of authenticated encryption for one sealed payload: sealing \<open>p\<close> under
  \<open>k\<close> gives \<open>c\<close>, the key \<open>k\<close> opens \<open>c\<close> to \<open>p\<close>, and every key either opens \<open>c\<close>
  to \<open>p\<close> or fails authentication.
\<close>

definition sealed_by :: "token_context \<Rightarrow> webauth_key \<Rightarrow> bytes \<Rightarrow> bytes \<Rightarrow> bool" where
  "sealed_by tc k p c =
     (seal tc k p = (WA_ERR_NONE, c) \<and> unseal tc k c = (WA_ERR_NONE, p) \<and>
      (\<forall>k'. unseal tc k' c = (WA_ERR_NONE, p) \<or> fst (unseal tc k' c) = WA_ERR_BAD_HMAC))"

text \<open>Example tokens: an id token for alice that expires at 5000, and login tokens.\<close>

definition id_alice :: webauth_token where
  "id_alice = Token_Id \<lparr>id_subject = Some ''alice'', id_auth = Some ''webkdc'',
                         id_auth_data = None, id_expiration = 5000\<rparr>"

definition login_password_only :: webauth_token_login where
  "login_password_only = \<lparr>login_username = Some ''alice'', login_password = Some ''secret'',
                           login_otp = None, login_otp_type = None\<rparr>"

definition login_both :: webauth_token_login where
  "login_both = \<lparr>login_username = Some ''alice'', login_password = Some ''secret'',
                  login_otp = Some ''123456'', login_otp_type = None\<rparr>"

definition login_neither :: webauth_token_login where
  "login_neither = \<lparr>login_username = Some ''alice'', login_password = None,
                     login_otp = None, login_otp_type = None\<rparr>"

definition login_password_otp_type :: webauth_token_login where
  "login_password_otp_type = \<lparr>login_username = Some ''alice'', login_password = Some ''secret'',
                               login_otp = None, login_otp_type = Some ''o1''\<rparr>"

definition login_nobody :: webauth_token_login where
  "login_nobody = \<lparr>login_username = None, login_password = Some ''secret'',
                    login_otp = None, login_otp_type = None\<rparr>"

text \<open>
  An example token context.  Its codec knows the attribute stream of \<open>id_alice\<close>; its
  encryption knows one sealed payload, that stream under \<open>key_A\<close>; its base64 leaves the
  bytes as they are.
\<close>

definition example_tc :: token_context where
  "example_tc =
     \<lparr>wai_encode_token =
        (\<lambda>t. if t = id_alice then (WA_ERR_NONE, ''t=id;s=alice;sa=webkdc;et=5000;'')
             else (WA_ERR_CORRUPT, [])),
      wai_decode_token =
        (\<lambda>a. if a = ''t=id;s=alice;sa=webkdc;et=5000;'' then (WA_ERR_NONE, id_alice)
             else (WA_ERR_CORRUPT, Token_Unknown)),
      seal =
        (\<lambda>k p. if k = key_A \<and> p = ''t=id;s=alice;sa=webkdc;et=5000;''
               then (WA_ERR_NONE, ''AAAA-sealed-id-alice'')
               else (WA_ERR_RAND_FAILURE, [])),
      unseal =
        (\<lambda>k c. if c = ''AAAA-sealed-id-alice''
               then (if k = key_A then (WA_ERR_NONE, ''t=id;s=alice;sa=webkdc;et=5000;'')
                     else (WA_ERR_BAD_HMAC, []))
               else (WA_ERR_CORRUPT, [])),
      key_hint = (\<lambda>k. take 4 (key_data k)),
      apr_base64_encode = (\<lambda>b. b),
      apr_base64_decode = (\<lambda>s. s)\<rparr>"

section \<open>Selecting the encryption key\<close>

lemma encrypt_best_skip:
  "encrypt_best now ring n best \<Longrightarrow> now < valid_after (ring ! n) \<Longrightarrow>
   encrypt_best now ring (Suc n) best"
  by (auto simp: encrypt_best_def less_Suc_eq split: option.splits)

lemma encrypt_best_keep:
  "encrypt_best now ring n (Some b) \<Longrightarrow>
   \<not> valid_after (ring ! n) > valid_after (ring ! b) \<Longrightarrow>
   encrypt_best now ring (Suc n) (Some b)"
  by (auto simp: encrypt_best_def less_Suc_eq)

lemma encrypt_best_take:
  "encrypt_best now ring n best \<Longrightarrow> \<not> now < valid_after (ring ! n) \<Longrightarrow>
   (case best of None \<Rightarrow> True | Some b \<Rightarrow> valid_after (ring ! n) > valid_after (ring ! b)) \<Longrightarrow>
   encrypt_best now ring (Suc n) (Some n)"
  by (fastforce simp: encrypt_best_def less_Suc_eq split: option.splits)

lemma best_key_loop_encrypt:
  "ring = pre @ es \<Longrightarrow> encrypt_best now ring (length pre) best \<Longrightarrow>
   encrypt_best now ring (length ring)
     (best_key_loop now WA_KEY_ENCRYPT hint ring (length pre) es best)"
proof (induction es arbitrary: pre best)
  case Nil
  then show ?case by simp
next
  case (Cons e es)
  have e: "ring ! length pre = e" using Cons.prems(1) by simp
  have r: "ring = (pre @ [e]) @ es" using Cons.prems(1) by simp
  have l: "Suc (length pre) = length (pre @ [e])" by simp
  note IH = Cons.IH [OF r, unfolded l [symmetric]]
  show ?case
  proof (cases "now < valid_after e")
    case True
    then have "encrypt_best now ring (Suc (length pre)) best"
      using encrypt_best_skip [OF Cons.prems(2), unfolded e] by blast
    from IH [OF this] True show ?thesis by simp
  next
    case False
    show ?thesis
    proof (cases "case best of None \<Rightarrow> True
                  | Some b \<Rightarrow> valid_after e > valid_after (ring ! b)")
      case True
      then have "encrypt_best now ring (Suc (length pre)) (Some (length pre))"
        using encrypt_best_take [OF Cons.prems(2), unfolded e] False by blast
      from IH [OF this] True False show ?thesis by simp
    next
      case nt: False
      then obtain b where b: "best = Some b" by (cases best) auto
      have "encrypt_best now ring (Suc (length pre)) (Some b)"
        using encrypt_best_keep [OF Cons.prems(2) [unfolded b], unfolded e] nt b by simp
      from IH [OF this] nt False b show ?thesis by simp
    qed
  qed
qed

lemma best_key_index_encrypt:
  "encrypt_best now ring (length ring) (best_key_index now ring WA_KEY_ENCRYPT hint)"
  unfolding best_key_index_def
  using best_key_loop_encrypt [of ring "[]" ring now None hint]
  by (simp add: encrypt_best_def)

text \<open>
  C2, as the claim states it, fails where two valid entries share the greatest
  \<^verbatim>\<open>valid_after\<close>: the comparison of the encryption branch is strict, so the entry
  inserted first is kept.  At time 10 the ring \<open>ring_tie\<close> holds \<open>key_A\<close> and then
  \<open>key_B\<close>, both valid since 5, and the key returned is \<open>key_A\<close>, not the later \<open>key_B\<close>.
\<close>

theorem best_key_encrypt_tie_counterexample:
  "valid_after (ring_tie ! 0) = valid_after (ring_tie ! 1) \<and>
   valid_after (ring_tie ! 1) \<le> 10 \<and>
   webauth_keyring_best_key 10 ring_tie WA_KEY_ENCRYPT 0 = (WA_ERR_NONE, Some (key (ring_tie ! 0))) \<and>
   key (ring_tie ! 0) \<noteq> key (ring_tie ! 1)"
  by (simp add: ring_tie_def webauth_keyring_best_key_def best_key_index_def key_A_def key_B_def)

text \<open>
  C2 (amended): for every keyring, \<^verbatim>\<open>best_key\<close> with usage \<^verbatim>\<open>ENCRYPT\<close> considers exactly
  the entries whose \<^verbatim>\<open>valid_after\<close> is at or before the current time.  When there is
  one, it returns the key of an entry \<open>b\<close> among them whose \<^verbatim>\<open>valid_after\<close> is the
  maximum, and every such entry before \<open>b\<close> has a strictly smaller \<^verbatim>\<open>valid_after\<close>:
  ties go to the entry inserted first.  When there is none, it fails with
  \<^verbatim>\<open>NOT_FOUND\<close> and returns no key.
\<close>

theorem best_key_encrypt_first_newest:
  "if \<exists>j<length ring. valid_after (ring ! j) \<le> now
   then \<exists>b<length ring.
          webauth_keyring_best_key now ring WA_KEY_ENCRYPT hint
            = (WA_ERR_NONE, Some (key (ring ! b))) \<and>
          valid_after (ring ! b) \<le> now \<and>
          (\<forall>j<length ring. valid_after (ring ! j) \<le> now \<longrightarrow>
             valid_after (ring ! j) \<le> valid_after (ring ! b)) \<and>
          (\<forall>j<b. valid_after (ring ! j) \<le> now \<longrightarrow>
             valid_after (ring ! j) < valid_after (ring ! b))
   else webauth_keyring_best_key now ring WA_KEY_ENCRYPT hint = (WA_ERR_NOT_FOUND, None)"
proof (cases "best_key_index now ring WA_KEY_ENCRYPT hint")
  case None
  with best_key_index_encrypt [of now ring hint]
  have "\<forall>j<length ring. now < valid_after (ring ! j)"
    by (simp add: encrypt_best_def)
  then have "\<not> (\<exists>j<length ring. valid_after (ring ! j) \<le> now)"
    by (simp add: not_le)
  then show ?thesis
    using None by (simp add: webauth_keyring_best_key_def)
next
  case (Some b)
  with best_key_index_encrypt [of now ring hint]
  have b: "b < length ring" "valid_after (ring ! b) \<le> now"
    "\<forall>j<length ring. valid_after (ring ! j) \<le> now \<longrightarrow>
       valid_after (ring ! j) \<le> valid_after (ring ! b)"
    "\<forall>j<b. valid_after (ring ! j) \<le> now \<longrightarrow>
       valid_after (ring ! j) < valid_after (ring ! b)"
    by (simp_all add: encrypt_best_def)
  have k: "webauth_keyring_best_key now ring WA_KEY_ENCRYPT hint
          = (WA_ERR_NONE, Some (key (ring ! b)))"
    using Some by (simp add: webauth_keyring_best_key_def)
  have ex: "\<exists>j<length ring. valid_after (ring ! j) \<le> now"
    using b(1,2) by blast
  show ?thesis
    unfolding if_P [OF ex] using b k by blast
qed

theorem best_key_encrypt_first_newest_witness:
  "webauth_keyring_best_key 10 ring_tie WA_KEY_ENCRYPT 0 = (WA_ERR_NONE, Some key_A) \<and>
   webauth_keyring_best_key 4 ring_tie WA_KEY_ENCRYPT 0 = (WA_ERR_NOT_FOUND, None)"
proof -
  have two: "\<And>j. j < Suc (Suc 0) \<longleftrightarrow> j = 0 \<or> j = Suc 0" by auto
  have "webauth_keyring_best_key 10 ring_tie WA_KEY_ENCRYPT 0 = (WA_ERR_NONE, Some key_A)"
    using best_key_encrypt_first_newest [of ring_tie 10 0]
    by (auto simp: ring_tie_def two key_A_def key_B_def split: if_splits)
  moreover
  have "webauth_keyring_best_key 4 ring_tie WA_KEY_ENCRYPT 0 = (WA_ERR_NOT_FOUND, None)"
    using best_key_encrypt_first_newest [of ring_tie 4 0]
    by (auto simp: ring_tie_def two split: if_splits)
  ultimately show ?thesis by simp
qed

section \<open>Adding a key to a keyring\<close>

text \<open>
  C3: the comment of \<^verbatim>\<open>webauth_keyring_add\<close> says that either time may be zero, in which
  case the current time is used, and the claim says the same.  The function never reads
  the clock: added with a creation time and a \<^verbatim>\<open>valid_after\<close> time of zero, the key is
  the last entry of the ring with both times zero, whatever the current time is.
\<close>

theorem keyring_add_zero_times_stored:
  "webauth_keyring_add ring 0 0 k = ring @ [\<lparr>creation = 0, valid_after = 0, key = k\<rparr>]"
  by (simp add: webauth_keyring_add_def webauth_key_copy_def)

section \<open>Decoding a keyring\<close>

lemma key_create_status:
  "webauth_key_create ctx t n m = (s, r) \<Longrightarrow>
   (s = WA_ERR_NONE \<or> s = WA_ERR_BAD_KEY \<or> s = WA_ERR_RAND_FAILURE) \<and>
   (s = WA_ERR_NONE \<longleftrightarrow> r \<noteq> None)"
  by (auto simp: webauth_key_create_def split: if_splits option.splits)

lemma key_create_ok:
  "webauth_key_create ctx t n m = (s, Some k) \<Longrightarrow> key_ok k"
  by (auto simp: webauth_key_create_def key_ok_def split: if_splits option.splits)

lemma key_create_again:
  "key_ok k \<Longrightarrow>
   webauth_key_create ctx (key_type k) (key_length k) (Some (key_data k)) = (WA_ERR_NONE, Some k)"
  by (auto simp: webauth_key_create_def key_ok_def)

lemma decode_entries_status:
  "keyring_decode_entries ctx es ring = (s, r) \<Longrightarrow>
   (s = WA_ERR_NONE \<or> s = WA_ERR_BAD_KEY \<or> s = WA_ERR_RAND_FAILURE) \<and>
   (s = WA_ERR_NONE \<longleftrightarrow> r \<noteq> None)"
proof (induction es arbitrary: ring)
  case Nil
  then show ?case by auto
next
  case (Cons e es)
  obtain s' r' where c:
    "webauth_key_create ctx (wai_key_type e) (wai_key_len e) (Some (wai_key e)) = (s', r')"
    by (cases "webauth_key_create ctx (wai_key_type e) (wai_key_len e) (Some (wai_key e))")
  show ?case
  proof (cases r')
    case None
    with c Cons.prems key_create_status [OF c] show ?thesis by auto
  next
    case (Some k)
    with c key_create_status [OF c] have "s' = WA_ERR_NONE" by simp
    with c Some Cons.prems
    have "keyring_decode_entries ctx es
            (webauth_keyring_add ring (wai_creation e) (wai_valid_after e) k) = (s, r)"
      by simp
    from Cons.IH [OF this] show ?thesis .
  qed
qed

lemma decode_entries_failure:
  "\<exists>e\<in>set es. fst (webauth_key_create ctx (wai_key_type e) (wai_key_len e) (Some (wai_key e)))
                  \<noteq> WA_ERR_NONE \<Longrightarrow>
   snd (keyring_decode_entries ctx es ring) = None"
proof (induction es arbitrary: ring)
  case Nil
  then show ?case by simp
next
  case (Cons e es)
  obtain s' r' where c:
    "webauth_key_create ctx (wai_key_type e) (wai_key_len e) (Some (wai_key e)) = (s', r')"
    by (cases "webauth_key_create ctx (wai_key_type e) (wai_key_len e) (Some (wai_key e))")
  show ?case
  proof (cases r')
    case None
    with c show ?thesis by simp
  next
    case (Some k)
    with c key_create_status [OF c] have s': "s' = WA_ERR_NONE" by simp
    with c Cons.prems
    have "\<exists>x\<in>set es. fst (webauth_key_create ctx (wai_key_type x) (wai_key_len x)
                              (Some (wai_key x))) \<noteq> WA_ERR_NONE"
      by auto
    from Cons.IH [OF this] c Some s' show ?thesis by simp
  qed
qed

lemma decode_entries_length:
  "keyring_decode_entries ctx es ring = (s, Some ring') \<Longrightarrow>
   length ring' = length ring + length es"
proof (induction es arbitrary: ring)
  case Nil
  then show ?case by simp
next
  case (Cons e es)
  then show ?case
    by (auto simp: webauth_keyring_add_def split: prod.splits option.splits if_splits)
qed

text \<open>
  C7: for every input that the attribute codec parses as a keyring, the decode fails with
  \<^verbatim>\<open>FILE_VERSION\<close> exactly when the decoded version differs from 1; whenever the decode
  fails, and so whenever creating the key of some entry fails, the output is \<^verbatim>\<open>NULL\<close>;
  a keyring that is returned has all the entries of the input.
\<close>

theorem keyring_decode_version_and_failure:
  assumes "webauth_decode ctx input = (WA_ERR_NONE, data)"
  shows
    "(fst (webauth_keyring_decode ctx input) = WA_ERR_FILE_VERSION \<longleftrightarrow> version data \<noteq> 1) \<and>
     (fst (webauth_keyring_decode ctx input) \<noteq> WA_ERR_NONE \<longrightarrow>
        snd (webauth_keyring_decode ctx input) = None) \<and>
     ((\<exists>e\<in>set (entry data).
         fst (webauth_key_create ctx (wai_key_type e) (wai_key_len e) (Some (wai_key e)))
           \<noteq> WA_ERR_NONE) \<longrightarrow>
        fst (webauth_keyring_decode ctx input) \<noteq> WA_ERR_NONE \<and>
        snd (webauth_keyring_decode ctx input) = None) \<and>
     (\<forall>ring. snd (webauth_keyring_decode ctx input) = Some ring \<longrightarrow>
        length ring = entry_count data)"
proof (cases "version data = 1")
  case False
  with assms show ?thesis
    by (simp add: webauth_keyring_decode_def KEYRING_VERSION_def)
next
  case True
  obtain s r where l: "keyring_decode_entries ctx (entry data) [] = (s, r)"
    by (cases "keyring_decode_entries ctx (entry data) []")
  have d: "webauth_keyring_decode ctx input = (s, r)"
    using assms True l
    by (simp add: webauth_keyring_decode_def KEYRING_VERSION_def webauth_keyring_new_def)
  note st = decode_entries_status [OF l]
  have f: "(\<exists>e\<in>set (entry data).
         fst (webauth_key_create ctx (wai_key_type e) (wai_key_len e) (Some (wai_key e)))
           \<noteq> WA_ERR_NONE) \<Longrightarrow> r = None"
    using decode_entries_failure [of "entry data" ctx "[]"] l by simp
  have n: "\<And>ring. r = Some ring \<Longrightarrow> length ring = entry_count data"
    using decode_entries_length [of ctx "entry data" "[]" s] l
    by (simp add: entry_count_def)
  show ?thesis
    unfolding d using True st f n by auto
qed

theorem keyring_decode_version_and_failure_witness:
  "webauth_keyring_decode example_ctx ''v2'' = (WA_ERR_FILE_VERSION, None) \<and>
   fst (webauth_keyring_decode example_ctx ''old'') \<noteq> WA_ERR_FILE_VERSION \<and>
   snd (webauth_keyring_decode example_ctx ''bad'') = None"
proof -
  have v2: "webauth_decode example_ctx ''v2''
              = (WA_ERR_NONE, (wai_of_ring ring_old)\<lparr>version := 2\<rparr>)"
    by (simp add: example_ctx_def example_decode_def)
  have old: "webauth_decode example_ctx ''old'' = (WA_ERR_NONE, wai_of_ring ring_old)"
    by (simp add: example_ctx_def example_decode_def)
  have bad: "webauth_decode example_ctx ''bad'' = (WA_ERR_NONE, data_bad)"
    by (simp add: example_ctx_def example_decode_def)
  have "webauth_keyring_decode example_ctx ''v2'' = (WA_ERR_FILE_VERSION, None)"
    using keyring_decode_version_and_failure [OF v2]
    by (simp add: prod_eq_iff)
  moreover
  have "fst (webauth_keyring_decode example_ctx ''old'') \<noteq> WA_ERR_FILE_VERSION"
    using keyring_decode_version_and_failure [OF old]
    by (simp add: wai_of_ring_def KEYRING_VERSION_def)
  moreover
  have "snd (webauth_keyring_decode example_ctx ''bad'') = None"
    using keyring_decode_version_and_failure [OF bad]
    by (simp add: data_bad_def webauth_key_create_def WA_KEY_AES_def)
  ultimately show ?thesis by simp
qed

section \<open>Writing a keyring\<close>

lemma keyring_temp_name_other: "keyring_temp_name io path \<noteq> path"
  by (simp add: keyring_temp_name_def)

lemma keyring_write_success:
  assumes "webauth_keyring_write ctx io ring path fs = (WA_ERR_NONE, fs')"
  shows "\<exists>buf. webauth_keyring_encode ctx ring = (WA_ERR_NONE, buf) \<and>
               fs' = fs(path \<mapsto> buf, keyring_temp_name io path := None)"
proof -
  obtain s buf where e: "webauth_keyring_encode ctx ring = (s, buf)"
    by (cases "webauth_keyring_encode ctx ring")
  have "s = WA_ERR_NONE \<and> fs' = fs(path \<mapsto> buf, keyring_temp_name io path := None)"
    using assms e keyring_temp_name_other [of io path]
    by (auto simp: webauth_keyring_write_def keyring_write_done_def Let_def fun_upd_twist
             split: if_splits)
  with e show ?thesis by simp
qed

lemma keyring_write_early_failure:
  assumes "mktemp_status io = APR_SUCCESS"
    and "fst (webauth_keyring_encode ctx ring) \<noteq> WA_ERR_NONE \<or> write_status io \<noteq> APR_SUCCESS"
  shows "fst (webauth_keyring_write ctx io ring path fs) \<noteq> WA_ERR_NONE \<and>
         snd (webauth_keyring_write ctx io ring path fs) (keyring_temp_name io path) = None"
  using assms
  by (auto simp: webauth_keyring_write_def keyring_write_done_def Let_def
           split: prod.splits)

text \<open>
  C5: on a failure of the close or of the rename, which both come after the temporary
  file was opened and written, \<^verbatim>\<open>webauth_keyring_write\<close> has already set its handle
  \<^verbatim>\<open>file\<close> to \<^verbatim>\<open>NULL\<close>, and the removal under the label \<^verbatim>\<open>done\<close> is skipped:
  writing the ring \<open>ring_new\<close> to \<open>keyring\<close> returns \<^verbatim>\<open>FILE_WRITE\<close>, leaves the target as
  it was, and leaves the temporary file \<open>keyring.a1B2c3\<close> with the encoded ring.
\<close>

theorem keyring_write_late_failure_leaves_temporary:
  "webauth_keyring_write example_ctx (io_ok\<lparr>rename_status := 1\<rparr>) ring_new ''keyring''
     [''keyring'' \<mapsto> ''old'']
     = (WA_ERR_FILE_WRITE, [''keyring'' \<mapsto> ''old'', ''keyring.a1B2c3'' \<mapsto> ''new'']) \<and>
   webauth_keyring_write example_ctx (io_ok\<lparr>close_status := 1\<rparr>) ring_new ''keyring''
     [''keyring'' \<mapsto> ''old'']
     = (WA_ERR_FILE_WRITE, [''keyring'' \<mapsto> ''old'', ''keyring.a1B2c3'' \<mapsto> ''new''])"
  by (simp add: webauth_keyring_write_def keyring_write_done_def keyring_temp_name_def
        io_ok_def APR_SUCCESS_def webauth_keyring_encode_def example_ctx_def
        example_encode_def wai_of_ring_def KEYRING_VERSION_def ring_new_def ring_old_def)

section \<open>Automatic update\<close>

text \<open>
  C10: for every keyring file that is read successfully, \<^verbatim>\<open>auto_update\<close> with a lifetime
  of zero never rotates: it returns success with the keyring it read, reports the
  outcome \<^verbatim>\<open>NONE\<close> and leaves the files as they were, whatever the current time and the
  \<^verbatim>\<open>valid_after\<close> times of the keys are.
\<close>

theorem auto_update_lifetime_zero:
  assumes "webauth_keyring_read ctx ro fs path = (WA_ERR_NONE, r)"
  shows "webauth_keyring_auto_update ctx ro io now path create 0 fs =
           \<lparr>kau_return = WA_ERR_NONE, kau_ring = r, kau_updated = WA_KAU_NONE,
            kau_update_status = WA_ERR_NONE, kau_files = fs\<rparr> \<and> r \<noteq> None"
proof -
  have "r \<noteq> None"
  proof
    assume "r = None"
    with assms have "webauth_keyring_read ctx ro fs path = (WA_ERR_NONE, None)" by simp
    then show False
      by (auto simp: webauth_keyring_read_def wai_file_read_def webauth_keyring_decode_def
               dest: decode_entries_status
               split: option.splits read_outcome.splits prod.splits if_splits)
  qed
  then obtain ring where "r = Some ring" by auto
  with assms show ?thesis
    by (simp add: webauth_keyring_auto_update_def)
qed

theorem auto_update_lifetime_zero_witness:
  "webauth_keyring_auto_update example_ctx Read_Ok io_ok 200000 ''keyring'' True 0
     [''keyring'' \<mapsto> ''old''] =
     \<lparr>kau_return = WA_ERR_NONE, kau_ring = Some ring_old, kau_updated = WA_KAU_NONE,
      kau_update_status = WA_ERR_NONE, kau_files = [''keyring'' \<mapsto> ''old'']\<rparr>"
proof -
  have "webauth_keyring_read example_ctx Read_Ok [''keyring'' \<mapsto> ''old''] ''keyring''
          = (WA_ERR_NONE, Some ring_old)"
    by (simp add: webauth_keyring_read_def wai_file_read_def webauth_keyring_decode_def
          example_ctx_def example_decode_def wai_of_ring_def KEYRING_VERSION_def ring_old_def
          wai_of_entry_def webauth_key_create_def WA_KEY_AES_def key_A_def
          webauth_keyring_add_def webauth_keyring_new_def webauth_key_copy_def)
  from auto_update_lifetime_zero [OF this] show ?thesis by simp
qed

lemma decode_entries_keys_ok:
  "keyring_decode_entries ctx es acc = (s, Some ring) \<Longrightarrow>
   \<forall>e\<in>set acc. key_ok (key e) \<Longrightarrow> \<forall>e\<in>set ring. key_ok (key e)"
proof (induction es arbitrary: acc)
  case Nil
  then show ?case by simp
next
  case (Cons e es)
  obtain s' r' where c:
    "webauth_key_create ctx (wai_key_type e) (wai_key_len e) (Some (wai_key e)) = (s', r')"
    by (cases "webauth_key_create ctx (wai_key_type e) (wai_key_len e) (Some (wai_key e))")
  show ?case
  proof (cases r')
    case None
    with c Cons.prems(1) show ?thesis by simp
  next
    case (Some k)
    with c key_create_status [OF c] have s': "s' = WA_ERR_NONE" by simp
    have k: "key_ok k" using key_create_ok c Some by blast
    let ?acc = "webauth_keyring_add acc (wai_creation e) (wai_valid_after e) k"
    have 1: "keyring_decode_entries ctx es ?acc = (s, Some ring)"
      using Cons.prems(1) c Some s' by simp
    have 2: "\<forall>x\<in>set ?acc. key_ok (key x)"
      using Cons.prems(2) k by (simp add: webauth_keyring_add_def webauth_key_copy_def)
    from Cons.IH [OF 1 2] show ?thesis .
  qed
qed

lemma keyring_read_keys_ok:
  assumes "webauth_keyring_read ctx ro fs path = (s, Some ring)"
  shows "\<forall>e\<in>set ring. key_ok (key e)"
proof -
  from assms obtain buf where "webauth_keyring_decode ctx buf = (s, Some ring)"
    by (auto simp: webauth_keyring_read_def split: prod.splits option.splits if_splits)
  then obtain data where
    "keyring_decode_entries ctx (entry data) (webauth_keyring_new (entry_count data))
       = (s, Some ring)"
    by (auto simp: webauth_keyring_decode_def split: prod.splits if_splits)
  from decode_entries_keys_ok [OF this] show ?thesis
    by (simp add: webauth_keyring_new_def)
qed

lemma decode_entries_of_ring:
  "\<forall>e\<in>set ring. key_ok (key e) \<Longrightarrow>
   keyring_decode_entries ctx (map wai_of_entry ring) acc = (WA_ERR_NONE, Some (acc @ ring))"
proof (induction ring arbitrary: acc)
  case Nil
  then show ?case by simp
next
  case (Cons e ring)
  have "key_ok (key e)" using Cons.prems by simp
  from key_create_again [OF this, of ctx]
  have "keyring_decode_entries ctx (map wai_of_entry (e # ring)) acc =
          keyring_decode_entries ctx (map wai_of_entry ring) (acc @ [e])"
    by (cases e) (simp add: wai_of_entry_def webauth_keyring_add_def webauth_key_copy_def)
  also have "\<dots> = (WA_ERR_NONE, Some ((acc @ [e]) @ ring))"
    using Cons.IH [of "acc @ [e]"] Cons.prems by simp
  finally show ?case by simp
qed

lemma keyring_decode_of_ring:
  assumes "webauth_decode ctx buf = (WA_ERR_NONE, wai_of_ring ring)"
    and "\<forall>e\<in>set ring. key_ok (key e)"
  shows "webauth_keyring_decode ctx buf = (WA_ERR_NONE, Some ring)"
  using assms(1) decode_entries_of_ring [OF assms(2), of ctx "[]"]
  by (simp add: webauth_keyring_decode_def wai_of_ring_def webauth_keyring_new_def)

lemma to_time_t_in_range:
  "- (2 ^ 63) \<le> x \<Longrightarrow> x < 2 ^ 63 \<Longrightarrow> to_time_t x = x"
  by (simp add: to_time_t_def)

lemma check_ring_recent_iff:
  "check_ring_recent now lifetime ring \<longleftrightarrow>
   (\<exists>e\<in>set ring. now < to_time_t (valid_after e + to_time_t (int lifetime)))"
  by (induction ring) auto

lemma check_ring_updated:
  assumes "check_ring ctx io now path lifetime ring WA_KAU_NONE fs
             = (WA_ERR_NONE, ring', WA_KAU_UPDATE, fs')"
  shows "\<exists>k. \<not> check_ring_recent now lifetime ring \<and> key_ok k \<and>
              ring' = ring @ [\<lparr>creation = now, valid_after = now, key = k\<rparr>] \<and>
              webauth_keyring_write ctx io ring' path fs = (WA_ERR_NONE, fs')"
proof -
  have n: "\<not> check_ring_recent now lifetime ring"
    using assms by (auto simp: check_ring_def)
  obtain s r where c: "webauth_key_create ctx WA_KEY_AES WA_AES_128 None = (s, r)"
    by (cases "webauth_key_create ctx WA_KEY_AES WA_AES_128 None")
  have "r \<noteq> None"
  proof
    assume "r = None"
    with key_create_status [OF c] have "s \<noteq> WA_ERR_NONE" by simp
    with assms n c \<open>r = None\<close> show False by (simp add: check_ring_def)
  qed
  then obtain k where k: "r = Some k" by auto
  have s: "s = WA_ERR_NONE" using key_create_status [OF c] k by simp
  have ok: "key_ok k" using key_create_ok c k by blast
  have "ring' = webauth_keyring_add ring now now k \<and>
        webauth_keyring_write ctx io (webauth_keyring_add ring now now k) path fs
          = (WA_ERR_NONE, fs')"
    using assms n c k s
    by (auto simp: check_ring_def Let_def split: prod.splits)
  with n ok show ?thesis
    by (auto simp: webauth_keyring_add_def webauth_key_copy_def)
qed

text \<open>
  Within the range of \<^verbatim>\<open>time_t\<close> the rotation is idempotent.  Let one call of
  \<^verbatim>\<open>auto_update\<close> rotate at a time \<open>now1\<close> that is not negative, with a positive
  lifetime such that \<open>now1\<close> plus the lifetime is below \<open>2 ^ 63\<close>, and let its rewrite
  of the file succeed.  Then the keyring it returns is the one it read with one more
  key whose times are \<open>now1\<close>, every entry it had read whose \<^verbatim>\<open>valid_after\<close> plus the
  lifetime is in range was valid for at least the lifetime, and a second call on the
  resulting files before \<open>now1\<close> plus the lifetime reports the outcome \<^verbatim>\<open>NONE\<close> and
  leaves the files as they are.  The attribute codec is assumed to decode what it
  encodes; what \<^verbatim>\<open>webauth_keyring_encode\<close> hands to it is part of the proof.
\<close>

lemma auto_update_rotates_once_in_range:
  assumes lifetime: "0 < lifetime"
    and range: "0 \<le> now1" "now1 + int lifetime < 2 ^ 63"
    and first: "webauth_keyring_auto_update ctx ro1 io1 now1 path create1 lifetime fs = r1"
    and rotated: "kau_updated r1 = WA_KAU_UPDATE" "kau_update_status r1 = WA_ERR_NONE"
    and codec: "\<forall>d buf. webauth_encode ctx d = (WA_ERR_NONE, buf) \<longrightarrow>
                  webauth_decode ctx buf = (WA_ERR_NONE, d)"
    and soon: "now2 < now1 + int lifetime"
  shows
    "kau_updated (webauth_keyring_auto_update ctx ro2 io2 now2 path create2 lifetime
                    (kau_files r1)) = WA_KAU_NONE \<and>
     kau_files (webauth_keyring_auto_update ctx ro2 io2 now2 path create2 lifetime
                  (kau_files r1)) = kau_files r1 \<and>
     (ro2 = Read_Ok \<longrightarrow>
        kau_ring (webauth_keyring_auto_update ctx ro2 io2 now2 path create2 lifetime
                    (kau_files r1)) = kau_ring r1) \<and>
     (\<exists>ring0 k. webauth_keyring_read ctx ro1 fs path = (WA_ERR_NONE, Some ring0) \<and>
        kau_ring r1 = Some (ring0 @ [\<lparr>creation = now1, valid_after = now1, key = k\<rparr>]) \<and>
        (\<forall>e\<in>set ring0.
           - (2 ^ 63) \<le> valid_after e + int lifetime \<and> valid_after e + int lifetime < 2 ^ 63
           \<longrightarrow> int lifetime \<le> now1 - valid_after e))"
proof -
  have cast: "to_time_t (int lifetime) = int lifetime"
    using range by (intro to_time_t_in_range) auto
  obtain st rd where rd: "webauth_keyring_read ctx ro1 fs path = (st, rd)"
    by (cases "webauth_keyring_read ctx ro1 fs path")
  obtain ring0 where ring0: "rd = Some ring0"
    using first rotated(1) rd
    by (cases rd) (auto simp: webauth_keyring_auto_update_def split: if_splits prod.splits)
  have st: "st = WA_ERR_NONE"
    using rd ring0
    by (auto simp: webauth_keyring_read_def wai_file_read_def webauth_keyring_decode_def
             dest: decode_entries_status
             split: option.splits read_outcome.splits prod.splits if_splits)
  obtain s ring1 u fs1 where
    cr: "check_ring ctx io1 now1 path lifetime ring0 WA_KAU_NONE fs = (s, ring1, u, fs1)"
    by (cases "check_ring ctx io1 now1 path lifetime ring0 WA_KAU_NONE fs") auto
  have r1: "r1 = \<lparr>kau_return = st, kau_ring = Some ring1, kau_updated = u,
                  kau_update_status = s, kau_files = fs1\<rparr>"
    using first rd ring0 cr lifetime by (simp add: webauth_keyring_auto_update_def)
  have "u = WA_KAU_UPDATE" "s = WA_ERR_NONE" using rotated r1 by simp_all
  with cr have "check_ring ctx io1 now1 path lifetime ring0 WA_KAU_NONE fs
                  = (WA_ERR_NONE, ring1, WA_KAU_UPDATE, fs1)" by simp
  from check_ring_updated [OF this] obtain k where
    old: "\<not> check_ring_recent now1 lifetime ring0" and k: "key_ok k" and
    ring1: "ring1 = ring0 @ [\<lparr>creation = now1, valid_after = now1, key = k\<rparr>]" and
    wr: "webauth_keyring_write ctx io1 ring1 path fs = (WA_ERR_NONE, fs1)"
    by blast
  from keyring_write_success [OF wr] obtain buf where
    enc: "webauth_keyring_encode ctx ring1 = (WA_ERR_NONE, buf)" and
    fs1: "fs1 = fs(path \<mapsto> buf, keyring_temp_name io1 path := None)"
    by blast
  have target: "fs1 path = Some buf"
    using fs1 keyring_temp_name_other [of io1 path] by simp
  have "webauth_encode ctx (wai_of_ring ring1) = (WA_ERR_NONE, buf)"
    using enc by (simp add: webauth_keyring_encode_def wai_of_ring_def)
  with codec have dec: "webauth_decode ctx buf = (WA_ERR_NONE, wai_of_ring ring1)"
    by blast
  have ok0: "\<forall>e\<in>set ring0. key_ok (key e)"
    using keyring_read_keys_ok rd ring0 by blast
  have ok1: "\<forall>e\<in>set ring1. key_ok (key e)"
    using ok0 k ring1 by simp
  have kd: "webauth_keyring_decode ctx buf = (WA_ERR_NONE, Some ring1)"
    using keyring_decode_of_ring [OF dec ok1] .
  have "to_time_t (now1 + to_time_t (int lifetime)) = now1 + int lifetime"
    unfolding cast using range by (intro to_time_t_in_range) auto
  then have recent: "check_ring_recent now2 lifetime ring1"
    unfolding check_ring_recent_iff using ring1 soon by simp
  let ?r2 = "webauth_keyring_auto_update ctx ro2 io2 now2 path create2 lifetime fs1"
  have second: "kau_updated ?r2 = WA_KAU_NONE \<and> kau_files ?r2 = fs1 \<and>
                (ro2 = Read_Ok \<longrightarrow> kau_ring ?r2 = Some ring1)"
  proof (cases ro2)
    case Read_Ok
    have "webauth_keyring_read ctx Read_Ok fs1 path = (WA_ERR_NONE, Some ring1)"
      using target kd by (simp add: webauth_keyring_read_def wai_file_read_def)
    then show ?thesis
      unfolding Read_Ok using lifetime recent
      by (simp add: webauth_keyring_auto_update_def check_ring_def)
  next
    case Open_Failed
    then have "webauth_keyring_read ctx ro2 fs1 path = (WA_ERR_FILE_OPENREAD, None)"
      using target by (simp add: webauth_keyring_read_def wai_file_read_def)
    then show ?thesis
      using Open_Failed by (simp add: webauth_keyring_auto_update_def)
  next
    case Read_Failed
    then have "webauth_keyring_read ctx ro2 fs1 path = (WA_ERR_FILE_READ, None)"
      using target by (simp add: webauth_keyring_read_def wai_file_read_def)
    then show ?thesis
      using Read_Failed by (simp add: webauth_keyring_auto_update_def)
  qed
  have aged: "int lifetime \<le> now1 - valid_after e"
    if e: "e \<in> set ring0" and lo: "- (2 ^ 63) \<le> valid_after e + int lifetime"
      and hi: "valid_after e + int lifetime < 2 ^ 63" for e
  proof -
    have "to_time_t (valid_after e + to_time_t (int lifetime)) = valid_after e + int lifetime"
      unfolding cast using lo hi by (rule to_time_t_in_range)
    moreover have "\<not> now1 < to_time_t (valid_after e + to_time_t (int lifetime))"
      using old e unfolding check_ring_recent_iff by blast
    ultimately show ?thesis by simp
  qed
  have "\<exists>ring0 k. webauth_keyring_read ctx ro1 fs path = (WA_ERR_NONE, Some ring0) \<and>
        kau_ring r1 = Some (ring0 @ [\<lparr>creation = now1, valid_after = now1, key = k\<rparr>]) \<and>
        (\<forall>e\<in>set ring0.
           - (2 ^ 63) \<le> valid_after e + int lifetime \<and> valid_after e + int lifetime < 2 ^ 63
           \<longrightarrow> int lifetime \<le> now1 - valid_after e)"
    using rd ring0 st r1 ring1 aged by auto
  with second r1 show ?thesis by simp
qed

lemmas example_keyring_defs =
  webauth_keyring_auto_update_def webauth_keyring_read_def wai_file_read_def
  webauth_keyring_decode_def example_ctx_def example_decode_def example_encode_def
  wai_of_ring_def KEYRING_VERSION_def ring_old_def ring_new_def ring_newer_def
  wai_of_entry_def webauth_key_create_def WA_KEY_AES_def WA_AES_128_def key_A_def key_R_def
  webauth_keyring_add_def webauth_keyring_new_def webauth_key_copy_def
  check_ring_def webauth_keyring_write_def keyring_write_done_def
  keyring_temp_name_def io_ok_def APR_SUCCESS_def webauth_keyring_encode_def
  entry_count_def to_time_t_def ULONG_MAX_def

lemma example_codec_inverse:
  "\<forall>d buf. webauth_encode example_ctx d = (WA_ERR_NONE, buf) \<longrightarrow>
     webauth_decode example_ctx buf = (WA_ERR_NONE, d)"
  by (simp add: example_ctx_def example_encode_def example_decode_def)

lemma auto_update_rotates_once_example:
  "kau_updated (webauth_keyring_auto_update example_ctx Read_Ok io_ok 200000 ''keyring'' False
                  86400 [''keyring'' \<mapsto> ''old'']) = WA_KAU_UPDATE \<and>
   kau_files (webauth_keyring_auto_update example_ctx Read_Ok io_ok 200000 ''keyring'' False
                86400 [''keyring'' \<mapsto> ''old'']) = [''keyring'' \<mapsto> ''new''] \<and>
   kau_updated (webauth_keyring_auto_update example_ctx Read_Ok io_ok 200001 ''keyring'' False
                  86400 [''keyring'' \<mapsto> ''new'']) = WA_KAU_NONE \<and>
   kau_files (webauth_keyring_auto_update example_ctx Read_Ok io_ok 200001 ''keyring'' False
                86400 [''keyring'' \<mapsto> ''new'']) = [''keyring'' \<mapsto> ''new'']"
proof -
  let ?r1 = "webauth_keyring_auto_update example_ctx Read_Ok io_ok 200000 ''keyring'' False
               86400 [''keyring'' \<mapsto> ''old'']"
  have r1: "?r1 = \<lparr>kau_return = WA_ERR_NONE, kau_ring = Some ring_new,
                   kau_updated = WA_KAU_UPDATE, kau_update_status = WA_ERR_NONE,
                   kau_files = [''keyring'' \<mapsto> ''new'']\<rparr>"
    by (simp add: example_keyring_defs)
  have u: "kau_updated ?r1 = WA_KAU_UPDATE" and s: "kau_update_status ?r1 = WA_ERR_NONE"
    and f: "kau_files ?r1 = [''keyring'' \<mapsto> ''new'']"
    unfolding r1 by simp_all
  have l: "0 < (86400::nat)" and p: "(0::int) \<le> 200000"
    and h: "(200000::int) + int 86400 < 2 ^ 63"
    and t: "(200001::int) < 200000 + int 86400" by simp_all
  from auto_update_rotates_once_in_range
         [OF l p h refl u s example_codec_inverse t, of Read_Ok io_ok False]
  show ?thesis using u f by simp
qed

text \<open>
  C8: the comments of \<^verbatim>\<open>check_ring\<close> and \<^verbatim>\<open>webauth_keyring_auto_update\<close> say that a key
  is added when the key with the most recent \<^verbatim>\<open>valid_after\<close> became valid more than
  the lifetime ago, and the claim says that after a rotation the next call does nothing,
  for every positive lifetime.  The test of \<^verbatim>\<open>check_ring\<close> casts the lifetime to
  \<^verbatim>\<open>time_t\<close>: with the lifetime \<^verbatim>\<open>ULONG_MAX\<close> the cast is \<open>-1\<close>, no key is ever recent,
  and every call rotates.  At time 200000 the first call on the file \<open>''old''\<close>, whose
  key has been valid for 199000 seconds, appends a key valid since 200000 and writes
  \<open>''new''\<close>; the second call at the same time appends another key and writes
  \<open>''newer''\<close>.
\<close>

theorem auto_update_huge_lifetime_rotates_again:
  "webauth_keyring_auto_update example_ctx Read_Ok io_ok 200000 ''keyring'' False ULONG_MAX
     [''keyring'' \<mapsto> ''old'']
     = \<lparr>kau_return = WA_ERR_NONE, kau_ring = Some ring_new, kau_updated = WA_KAU_UPDATE,
        kau_update_status = WA_ERR_NONE, kau_files = [''keyring'' \<mapsto> ''new'']\<rparr> \<and>
   webauth_keyring_auto_update example_ctx Read_Ok io_ok 200000 ''keyring'' False ULONG_MAX
     [''keyring'' \<mapsto> ''new'']
     = \<lparr>kau_return = WA_ERR_NONE, kau_ring = Some ring_newer, kau_updated = WA_KAU_UPDATE,
        kau_update_status = WA_ERR_NONE, kau_files = [''keyring'' \<mapsto> ''newer'']\<rparr>"
  by (simp add: example_keyring_defs)

theorem auto_update_huge_lifetime_rotates_again_witness:
  "kau_updated (webauth_keyring_auto_update example_ctx Read_Ok io_ok 200000 ''keyring'' False
                  ULONG_MAX [''keyring'' \<mapsto> ''new'']) = WA_KAU_UPDATE \<and>
   kau_files (webauth_keyring_auto_update example_ctx Read_Ok io_ok 200000 ''keyring'' False
                ULONG_MAX [''keyring'' \<mapsto> ''new'']) ''keyring'' = Some ''newer''"
  using auto_update_huge_lifetime_rotates_again by simp
section \<open>Validation of tokens\<close>

lemmas check_macro_defs =
  CHECK_DATA_def CHECK_NUM_def CHECK_STR_def CHECK_NULL_def CHECK_ZERO_def CHECK_EXP_def
  check_expiration_def

lemmas check_kind_defs =
  check_app_def check_cred_def check_error_def check_id_def check_login_def check_proxy_def
  check_request_def check_webkdc_factor_def check_webkdc_proxy_def check_webkdc_service_def
  check_cred_type_def check_proxy_type_def check_subject_auth_def

text \<open>
  C9: validation of a login token succeeds only if the username is set and exactly one
  of password and otp is set; with both set, with neither set, or with an otp type
  together with a password it fails with \<^verbatim>\<open>CORRUPT\<close>, whatever the mode, and it never
  fails with any other status.
\<close>

theorem check_login_exclusive:
  "(check_token now (Token_Login login) mode = WA_ERR_NONE \<longrightarrow>
      login_username login \<noteq> None \<and>
      (login_password login \<noteq> None) \<noteq> (login_otp login \<noteq> None)) \<and>
   (login_password login \<noteq> None \<and> login_otp login \<noteq> None \<longrightarrow>
      check_token now (Token_Login login) mode = WA_ERR_CORRUPT) \<and>
   (login_password login = None \<and> login_otp login = None \<longrightarrow>
      check_token now (Token_Login login) mode = WA_ERR_CORRUPT) \<and>
   (login_otp_type login \<noteq> None \<and> login_password login \<noteq> None \<longrightarrow>
      check_token now (Token_Login login) mode = WA_ERR_CORRUPT) \<and>
   (check_token now (Token_Login login) mode = WA_ERR_NONE \<or>
    check_token now (Token_Login login) mode = WA_ERR_CORRUPT)"
  by (simp add: check_login_def CHECK_STR_def CHECK_NULL_def)

theorem check_login_exclusive_witness:
  "check_token 1000 (Token_Login login_password_only) ENCODE = WA_ERR_NONE \<and>
   login_username login_password_only \<noteq> None \<and>
   check_token 1000 (Token_Login login_both) ENCODE = WA_ERR_CORRUPT \<and>
   check_token 1000 (Token_Login login_both) DECODE = WA_ERR_CORRUPT \<and>
   check_token 1000 (Token_Login login_neither) ENCODE = WA_ERR_CORRUPT \<and>
   check_token 1000 (Token_Login login_neither) DECODE = WA_ERR_CORRUPT \<and>
   check_token 1000 (Token_Login login_password_otp_type) ENCODE = WA_ERR_CORRUPT \<and>
   check_token 1000 (Token_Login login_password_otp_type) DECODE = WA_ERR_CORRUPT"
proof -
  have ok: "check_token 1000 (Token_Login login_password_only) ENCODE = WA_ERR_NONE"
    by (simp add: check_login_def CHECK_STR_def CHECK_NULL_def login_password_only_def)
  have "login_username login_password_only \<noteq> None"
    using check_login_exclusive [of 1000 login_password_only ENCODE] ok by blast
  moreover
  have "check_token 1000 (Token_Login login_both) m = WA_ERR_CORRUPT" for m
    using check_login_exclusive [of 1000 login_both m] by (simp add: login_both_def)
  moreover
  have "check_token 1000 (Token_Login login_neither) m = WA_ERR_CORRUPT" for m
    using check_login_exclusive [of 1000 login_neither m] by (simp add: login_neither_def)
  moreover
  have "check_token 1000 (Token_Login login_password_otp_type) m = WA_ERR_CORRUPT" for m
    using check_login_exclusive [of 1000 login_password_otp_type m]
    by (simp add: login_password_otp_type_def)
  ultimately show ?thesis using ok by blast
qed

section \<open>Expiration\<close>

lemma check_token_encode_any_time:
  "check_token now t ENCODE = check_token now' t ENCODE"
  by (cases t) (simp_all add: check_kind_defs CHECK_EXP_def split: option.splits)

lemma CHECK_EXP_decode:
  "CHECK_EXP now e ENCODE = WA_ERR_NONE \<Longrightarrow>
   CHECK_EXP now' e DECODE = (if e < now' then WA_ERR_TOKEN_EXPIRED else WA_ERR_NONE)"
  by (simp add: CHECK_EXP_def check_expiration_def split: if_splits)

lemma CHECK_EXP_encode_status:
  "CHECK_EXP now e ENCODE = WA_ERR_NONE \<or> CHECK_EXP now e ENCODE = WA_ERR_CORRUPT"
  by (simp add: CHECK_EXP_def CHECK_NUM_def)

lemma check_token_decode_unexpiring:
  "token_expiration t = None \<Longrightarrow> check_token now' t DECODE = check_token now t ENCODE"
  by (cases t) (simp_all add: check_kind_defs)

lemma check_token_decode_of_encode:
  assumes "check_token now t ENCODE = WA_ERR_NONE" and "token_expiration t = Some e"
  shows "check_token now' t DECODE = (if e < now' then WA_ERR_TOKEN_EXPIRED else WA_ERR_NONE)"
proof (cases t)
  case (Token_App x)
  with assms show ?thesis
    by (auto simp: check_app_def CHECK_EXP_def CHECK_NUM_def check_expiration_def split: if_splits)
next
  case (Token_Cred x)
  with assms show ?thesis
    by (auto simp: check_cred_def check_macro_defs Let_def split: if_splits option.splits)
next
  case (Token_Id x)
  with assms show ?thesis
    by (auto simp: check_id_def CHECK_EXP_def CHECK_NUM_def check_expiration_def split: if_splits option.splits)
next
  case (Token_Proxy x)
  with assms show ?thesis
    by (auto simp: check_proxy_def check_macro_defs Let_def split: if_splits option.splits)
next
  case (Token_Webkdc_Factor x)
  with assms show ?thesis
    by (auto simp: check_webkdc_factor_def check_macro_defs Let_def split: if_splits option.splits)
next
  case (Token_Webkdc_Proxy x)
  with assms show ?thesis
    by (auto simp: check_webkdc_proxy_def check_macro_defs Let_def split: if_splits option.splits)
next
  case (Token_Webkdc_Service x)
  with assms show ?thesis
    by (auto simp: check_webkdc_service_def check_macro_defs Let_def split: if_splits option.splits)
qed (use assms in simp_all)

lemma token_type_string_known:
  "webauth_token_type_string ttype = None \<and> ttype \<noteq> WA_TOKEN_ANY \<longleftrightarrow> False"
  by (cases ttype) simp_all

lemmas example_token_defs =
  example_tc_def id_alice_def key_A_def key_R_def ring_old_def ring_new_def
section \<open>Encoding without keys\<close>

text \<open>
  C4, as the claim states it, fails for an empty keyring and a record that does not pass
  validation: \<^verbatim>\<open>webauth_token_encode_raw\<close> tests only for a \<^verbatim>\<open>NULL\<close> keyring before it
  validates the record, so the login token without username, encoded with the empty
  keyring, fails with \<^verbatim>\<open>CORRUPT\<close>, not \<^verbatim>\<open>BAD_KEY\<close>.
\<close>

theorem encode_empty_keyring_counterexample:
  "webauth_token_encode_raw example_tc 1000 (Token_Login login_nobody) (Some [])
     = (WA_ERR_CORRUPT, None) \<and>
   webauth_token_encode example_tc 1000 (Token_Login login_nobody) (Some [])
     = (WA_ERR_CORRUPT, None)"
  by (simp add: webauth_token_encode_def webauth_token_encode_raw_def check_login_def
        CHECK_STR_def login_nobody_def)

text \<open>
  C4 (amended): for every token record, encoding fails with \<^verbatim>\<open>BAD_KEY\<close> whenever the
  keyring is \<^verbatim>\<open>NULL\<close>.  With a keyring that has no entries the record is validated
  first: encoding fails with the status of the validation when the record does not pass
  it, with the status of the attribute codec when that fails, and with \<^verbatim>\<open>BAD_KEY\<close>
  otherwise.  In all these cases no ciphertext is produced.
\<close>

theorem encode_without_keys:
  "webauth_token_encode_raw tc now data None = (WA_ERR_BAD_KEY, None) \<and>
   webauth_token_encode tc now data None = (WA_ERR_BAD_KEY, None) \<and>
   webauth_token_encode_raw tc now data (Some []) =
     (if check_token now data ENCODE \<noteq> WA_ERR_NONE then (check_token now data ENCODE, None)
      else if fst (wai_encode_token tc data) \<noteq> WA_ERR_NONE
      then (fst (wai_encode_token tc data), None)
      else (WA_ERR_BAD_KEY, None)) \<and>
   webauth_token_encode tc now data (Some []) = webauth_token_encode_raw tc now data (Some [])"
  by (simp add: webauth_token_encode_def webauth_token_encode_raw_def
        webauth_token_encrypt_def split: prod.splits)

theorem encode_without_keys_witness:
  "webauth_token_encode example_tc 1000 id_alice None = (WA_ERR_BAD_KEY, None) \<and>
   webauth_token_encode example_tc 1000 id_alice (Some []) = (WA_ERR_BAD_KEY, None) \<and>
   webauth_token_encode example_tc 1000 (Token_Login login_nobody) None = (WA_ERR_BAD_KEY, None)"
proof -
  have v: "check_token 1000 id_alice ENCODE = WA_ERR_NONE"
    by (simp add: id_alice_def check_id_def check_macro_defs check_subject_auth_def)
  have a: "fst (wai_encode_token example_tc id_alice) = WA_ERR_NONE"
    by (simp add: example_tc_def)
  from encode_without_keys [of example_tc 1000 id_alice]
       encode_without_keys [of example_tc 1000 "Token_Login login_nobody"] v a
  show ?thesis by simp
qed

section \<open>Round trip\<close>

lemma try_keys_sealed:
  assumes "\<forall>k'. unseal tc k' c = (WA_ERR_NONE, p) \<or> fst (unseal tc k' c) = WA_ERR_BAD_HMAC"
    and "k \<in> set ks" and "unseal tc k c = (WA_ERR_NONE, p)"
  shows "try_keys tc c ks = (WA_ERR_NONE, p)"
  using assms(2)
proof (induction ks)
  case Nil
  then show ?case by simp
next
  case (Cons a ks)
  from assms(1) have "unseal tc a c = (WA_ERR_NONE, p) \<or> fst (unseal tc a c) = WA_ERR_BAD_HMAC"
    by blast
  then show ?case
  proof
    assume "unseal tc a c = (WA_ERR_NONE, p)"
    then show ?thesis by simp
  next
    assume b: "fst (unseal tc a c) = WA_ERR_BAD_HMAC"
    then obtain out where u: "unseal tc a c = (WA_ERR_BAD_HMAC, out)"
      by (cases "unseal tc a c") simp
    have "a \<noteq> k" using assms(3) u by auto
    with Cons.prems have "k \<in> set ks" by simp
    from Cons.IH [OF this] u show ?thesis by simp
  qed
qed

lemma token_decrypt_sealed:
  assumes "sealed_by tc k p c" and "k \<in> key ` set ring"
  shows "webauth_token_decrypt tc c ring = (WA_ERR_NONE, p)"
proof -
  let ?ks = "map key (filter (\<lambda>e. key_hint tc (key e) = take 4 c) ring)
             @ map key (filter (\<lambda>e. key_hint tc (key e) \<noteq> take 4 c) ring)"
  have "set ?ks = key ` set ring" by auto
  with assms(2) have "k \<in> set ?ks" by simp
  from try_keys_sealed [OF _ this, of tc c p] assms(1) show ?thesis
    by (simp add: sealed_by_def webauth_token_decrypt_def)
qed

lemma best_key_encrypt_member:
  assumes "\<exists>e\<in>set ring. valid_after e \<le> now"
  shows "\<exists>k. webauth_keyring_best_key now ring WA_KEY_ENCRYPT hint = (WA_ERR_NONE, Some k) \<and>
             k \<in> key ` set ring"
proof (cases "best_key_index now ring WA_KEY_ENCRYPT hint")
  case None
  with best_key_index_encrypt [of now ring hint]
  have "\<forall>j<length ring. now < valid_after (ring ! j)"
    by (simp add: encrypt_best_def)
  moreover from assms obtain i where "i < length ring" "valid_after (ring ! i) \<le> now"
    by (auto simp: in_set_conv_nth)
  ultimately have False by fastforce
  then show ?thesis ..
next
  case (Some b)
  with best_key_index_encrypt [of now ring hint] have "b < length ring"
    by (simp add: encrypt_best_def)
  then have "key (ring ! b) \<in> key ` set ring" by simp
  with Some show ?thesis
    by (simp add: webauth_keyring_best_key_def)
qed

text \<open>
  C1: let the token record \<open>t\<close> pass validation and let the keyring \<open>K\<close> hold a key whose
  \<^verbatim>\<open>valid_after\<close> is at or before the time of encoding.  Let the codec, the encryption
  and base64 work and be inverted by their counterparts: the attribute stream of \<open>t\<close>
  parses back to \<open>t\<close>, the stream can be sealed under the key that \<^verbatim>\<open>best_key\<close> selects,
  with the contract \<open>sealed_by\<close>, and base64 decoding undoes base64 encoding.  Then
  encoding \<open>t\<close> under \<open>K\<close> succeeds, and decoding the result with the kind of \<open>t\<close> (or
  with \<^verbatim>\<open>ANY\<close>) and the same keyring, at a time that is not after the expiration of
  \<open>t\<close>, succeeds and returns \<open>t\<close>.
\<close>

theorem token_encode_decode_roundtrip:
  assumes valid: "check_token now t ENCODE = WA_ERR_NONE"
    and fresh: "\<forall>e. token_expiration t = Some e \<longrightarrow> now' \<le> e"
    and mature: "\<exists>e\<in>set K. valid_after e \<le> now"
    and codec: "wai_encode_token tc t = (WA_ERR_NONE, attrs)"
               "wai_decode_token tc attrs = (WA_ERR_NONE, t)"
    and crypto: "\<forall>k. webauth_keyring_best_key now K WA_KEY_ENCRYPT 0 = (WA_ERR_NONE, Some k)
                   \<longrightarrow> (\<exists>c. sealed_by tc k attrs c)"
    and base64: "\<forall>b. apr_base64_decode tc (apr_base64_encode tc b) = b"
  shows "\<exists>tok. webauth_token_encode tc now t (Some K) = (WA_ERR_NONE, Some tok) \<and>
               webauth_token_decode tc now' (token_type t) (Some tok) K = (WA_ERR_NONE, Some t) \<and>
               webauth_token_decode tc now' WA_TOKEN_ANY (Some tok) K = (WA_ERR_NONE, Some t)"
proof -
  from best_key_encrypt_member [OF mature, of 0] obtain k where
    bk: "webauth_keyring_best_key now K WA_KEY_ENCRYPT 0 = (WA_ERR_NONE, Some k)" and
    kin: "k \<in> key ` set K"
    by blast
  from crypto bk obtain c where sealed: "sealed_by tc k attrs c" by blast
  have ne: "K \<noteq> []" using mature by auto
  have enc: "webauth_token_encrypt tc now attrs K = (WA_ERR_NONE, c)"
    using ne bk sealed by (simp add: webauth_token_encrypt_def sealed_by_def)
  have raw: "webauth_token_encode_raw tc now t (Some K) = (WA_ERR_NONE, Some c)"
    using valid codec(1) enc by (simp add: webauth_token_encode_raw_def)
  have tok: "webauth_token_encode tc now t (Some K) = (WA_ERR_NONE, Some (apr_base64_encode tc c))"
    using raw by (simp add: webauth_token_encode_def)
  have dec: "webauth_token_decrypt tc c K = (WA_ERR_NONE, attrs)"
    using token_decrypt_sealed [OF sealed kin] .
  have chk: "check_token now' t DECODE = WA_ERR_NONE"
  proof (cases "token_expiration t")
    case None
    from check_token_decode_unexpiring [OF this, of now' now] valid show ?thesis by simp
  next
    case (Some e)
    with fresh have "\<not> e < now'" by auto
    with check_token_decode_of_encode [OF valid Some, of now'] show ?thesis by simp
  qed
  have "webauth_token_decode_raw tc now' ttype c K = (WA_ERR_NONE, Some t)"
    if "ttype = token_type t \<or> ttype = WA_TOKEN_ANY" for ttype
    using that dec codec(2) chk
    by (auto simp: webauth_token_decode_raw_def token_type_string_known)
  then have "webauth_token_decode tc now' ttype (Some (apr_base64_encode tc c)) K
               = (WA_ERR_NONE, Some t)"
    if "ttype = token_type t \<or> ttype = WA_TOKEN_ANY" for ttype
    using that base64 by (simp add: webauth_token_decode_def)
  with tok show ?thesis by blast
qed

theorem token_encode_decode_roundtrip_witness:
  "webauth_token_encode example_tc 1000 id_alice (Some ring_new)
     = (WA_ERR_NONE, Some ''AAAA-sealed-id-alice'') \<and>
   webauth_token_decode example_tc 1001 WA_TOKEN_ID (Some ''AAAA-sealed-id-alice'') ring_new
     = (WA_ERR_NONE, Some id_alice)"
proof -
  have valid: "check_token 1000 id_alice ENCODE = WA_ERR_NONE"
    by (simp add: id_alice_def check_id_def check_macro_defs check_subject_auth_def)
  have fresh: "\<forall>e. token_expiration id_alice = Some e \<longrightarrow> 1001 \<le> e"
    by (simp add: id_alice_def)
  have mature: "\<exists>e\<in>set ring_new. valid_after e \<le> 1000"
    by (simp add: ring_new_def)
  have codec: "wai_encode_token example_tc id_alice
                 = (WA_ERR_NONE, ''t=id;s=alice;sa=webkdc;et=5000;'')"
      "wai_decode_token example_tc ''t=id;s=alice;sa=webkdc;et=5000;''
         = (WA_ERR_NONE, id_alice)"
    by (simp_all add: example_tc_def)
  have bk: "webauth_keyring_best_key 1000 ring_new WA_KEY_ENCRYPT 0 = (WA_ERR_NONE, Some key_A)"
    by (simp add: webauth_keyring_best_key_def best_key_index_def ring_new_def)
  have sealed: "sealed_by example_tc key_A ''t=id;s=alice;sa=webkdc;et=5000;''
                  ''AAAA-sealed-id-alice''"
    by (simp add: sealed_by_def example_tc_def)
  have crypto: "\<forall>k. webauth_keyring_best_key 1000 ring_new WA_KEY_ENCRYPT 0
                       = (WA_ERR_NONE, Some k)
                   \<longrightarrow> (\<exists>c. sealed_by example_tc k ''t=id;s=alice;sa=webkdc;et=5000;'' c)"
    using bk sealed by auto
  have base64: "\<forall>b. apr_base64_decode example_tc (apr_base64_encode example_tc b) = b"
    by (simp add: example_tc_def)
  have ty: "token_type id_alice = WA_TOKEN_ID"
    by (simp add: id_alice_def)
  have e: "webauth_token_encode example_tc 1000 id_alice (Some ring_new)
             = (WA_ERR_NONE, Some ''AAAA-sealed-id-alice'')"
    using valid bk
    by (simp add: webauth_token_encode_def webauth_token_encode_raw_def
          webauth_token_encrypt_def ring_new_def example_tc_def)
  from token_encode_decode_roundtrip [OF valid fresh mature codec crypto base64] e ty
  show ?thesis by auto
qed


section \<open>Expired tokens\<close>

lemma token_encode_then_decode:
  assumes valid: "check_token now t ENCODE = WA_ERR_NONE"
    and mature: "\<exists>x\<in>set K. valid_after x \<le> now"
    and codec: "wai_encode_token tc t = (WA_ERR_NONE, attrs)"
               "wai_decode_token tc attrs = (WA_ERR_NONE, t)"
    and crypto: "\<forall>k. webauth_keyring_best_key now K WA_KEY_ENCRYPT 0 = (WA_ERR_NONE, Some k)
                   \<longrightarrow> (\<exists>c. sealed_by tc k attrs c)"
    and base64: "\<forall>b. apr_base64_decode tc (apr_base64_encode tc b) = b"
  shows "\<exists>tok. webauth_token_encode tc now t (Some K) = (WA_ERR_NONE, Some tok) \<and>
           (\<forall>now'. webauth_token_decode tc now' (token_type t) (Some tok) K =
              (if check_token now' t DECODE \<noteq> WA_ERR_NONE
               then (check_token now' t DECODE, None) else (WA_ERR_NONE, Some t)))"
proof -
  from best_key_encrypt_member [OF mature, of 0] obtain k where
    bk: "webauth_keyring_best_key now K WA_KEY_ENCRYPT 0 = (WA_ERR_NONE, Some k)" and
    kin: "k \<in> key ` set K"
    by blast
  from crypto bk obtain c where sealed: "sealed_by tc k attrs c" by blast
  have ne: "K \<noteq> []" using mature by auto
  have enc: "webauth_token_encrypt tc now attrs K = (WA_ERR_NONE, c)"
    using ne bk sealed by (simp add: webauth_token_encrypt_def sealed_by_def)
  have raw: "webauth_token_encode_raw tc now t (Some K) = (WA_ERR_NONE, Some c)"
    using valid codec(1) enc by (simp add: webauth_token_encode_raw_def)
  have tok: "webauth_token_encode tc now t (Some K) = (WA_ERR_NONE, Some (apr_base64_encode tc c))"
    using raw by (simp add: webauth_token_encode_def)
  have dec: "webauth_token_decrypt tc c K = (WA_ERR_NONE, attrs)"
    using token_decrypt_sealed [OF sealed kin] .
  have "webauth_token_decode_raw tc now' (token_type t) c K =
          (if check_token now' t DECODE \<noteq> WA_ERR_NONE
           then (check_token now' t DECODE, None) else (WA_ERR_NONE, Some t))" for now'
    using dec codec(2)
    by (simp add: webauth_token_decode_raw_def token_type_string_known)
  then have "webauth_token_decode tc now' (token_type t) (Some (apr_base64_encode tc c)) K =
          (if check_token now' t DECODE \<noteq> WA_ERR_NONE
           then (check_token now' t DECODE, None) else (WA_ERR_NONE, Some t))" for now'
    using base64 by (simp add: webauth_token_decode_def)
  with tok show ?thesis by blast
qed

text \<open>
  C6: let a token record pass validation and have an expiration time, and let the
  keyring hold a key that is valid at the time of encoding; the codec, the encryption
  and base64, which the token code calls but does not define, are assumed to work and to
  be inverted by their counterparts, as for the round trip.  Then encoding the record
  succeeds at every current time, also after the expiration: validation in \<^verbatim>\<open>ENCODE\<close>
  mode does not look at the clock.  Decoding the encoded token fails with
  \<^verbatim>\<open>TOKEN_EXPIRED\<close> and returns no record when the expiration is strictly before the
  current time, and returns the record otherwise: a record whose expiration equals the
  current time is not rejected.  Validation in \<^verbatim>\<open>DECODE\<close> mode, taken alone, decides in
  the same way.
\<close>

theorem expired_rejected_on_decode_only:
  assumes valid: "check_token now t ENCODE = WA_ERR_NONE"
    and expires: "token_expiration t = Some e"
    and mature: "\<exists>x\<in>set K. valid_after x \<le> now"
    and codec: "wai_encode_token tc t = (WA_ERR_NONE, attrs)"
               "wai_decode_token tc attrs = (WA_ERR_NONE, t)"
    and crypto: "\<forall>k. webauth_keyring_best_key now K WA_KEY_ENCRYPT 0 = (WA_ERR_NONE, Some k)
                   \<longrightarrow> (\<exists>c. sealed_by tc k attrs c)"
    and base64: "\<forall>b. apr_base64_decode tc (apr_base64_encode tc b) = b"
  shows
    "(\<exists>tok. webauth_token_encode tc now t (Some K) = (WA_ERR_NONE, Some tok) \<and>
        (\<forall>now'. webauth_token_decode tc now' (token_type t) (Some tok) K =
           (if e < now' then (WA_ERR_TOKEN_EXPIRED, None) else (WA_ERR_NONE, Some t)))) \<and>
     (\<forall>now'. check_token now' t ENCODE = WA_ERR_NONE) \<and>
     (\<forall>now'. check_token now' t DECODE =
        (if e < now' then WA_ERR_TOKEN_EXPIRED else WA_ERR_NONE))"
proof -
  have d: "check_token now' t DECODE = (if e < now' then WA_ERR_TOKEN_EXPIRED else WA_ERR_NONE)"
    for now'
    using check_token_decode_of_encode [OF valid expires] .
  have n: "check_token now' t ENCODE = WA_ERR_NONE" for now'
    using valid check_token_encode_any_time [of now' t now] by simp
  from token_encode_then_decode [OF valid mature codec crypto base64] obtain tok where
    tok: "webauth_token_encode tc now t (Some K) = (WA_ERR_NONE, Some tok)" and
    dec: "\<And>now'. webauth_token_decode tc now' (token_type t) (Some tok) K =
              (if check_token now' t DECODE \<noteq> WA_ERR_NONE
               then (check_token now' t DECODE, None) else (WA_ERR_NONE, Some t))"
    by blast
  have "webauth_token_decode tc now' (token_type t) (Some tok) K =
          (if e < now' then (WA_ERR_TOKEN_EXPIRED, None) else (WA_ERR_NONE, Some t))" for now'
    using dec [of now'] d [of now'] by simp
  with tok d n show ?thesis by blast
qed

theorem expired_rejected_on_decode_only_witness:
  "webauth_token_encode example_tc 6000 id_alice (Some ring_new)
     = (WA_ERR_NONE, Some ''AAAA-sealed-id-alice'') \<and>
   webauth_token_decode example_tc 6000 WA_TOKEN_ID (Some ''AAAA-sealed-id-alice'') ring_new
     = (WA_ERR_TOKEN_EXPIRED, None) \<and>
   webauth_token_decode example_tc 5000 WA_TOKEN_ID (Some ''AAAA-sealed-id-alice'') ring_new
     = (WA_ERR_NONE, Some id_alice) \<and>
   check_token 6000 id_alice DECODE = WA_ERR_TOKEN_EXPIRED"
proof -
  have valid: "check_token 6000 id_alice ENCODE = WA_ERR_NONE"
    by (simp add: id_alice_def check_id_def check_macro_defs check_subject_auth_def)
  have expires: "token_expiration id_alice = Some 5000"
    by (simp add: id_alice_def)
  have mature: "\<exists>x\<in>set ring_new. valid_after x \<le> 6000"
    by (simp add: ring_new_def)
  have codec: "wai_encode_token example_tc id_alice
                 = (WA_ERR_NONE, ''t=id;s=alice;sa=webkdc;et=5000;'')"
      "wai_decode_token example_tc ''t=id;s=alice;sa=webkdc;et=5000;''
         = (WA_ERR_NONE, id_alice)"
    by (simp_all add: example_tc_def)
  have bk: "webauth_keyring_best_key 6000 ring_new WA_KEY_ENCRYPT 0 = (WA_ERR_NONE, Some key_A)"
    by (simp add: webauth_keyring_best_key_def best_key_index_def ring_new_def)
  have sealed: "sealed_by example_tc key_A ''t=id;s=alice;sa=webkdc;et=5000;''
                  ''AAAA-sealed-id-alice''"
    by (simp add: sealed_by_def example_tc_def)
  have crypto: "\<forall>k. webauth_keyring_best_key 6000 ring_new WA_KEY_ENCRYPT 0
                       = (WA_ERR_NONE, Some k)
                   \<longrightarrow> (\<exists>c. sealed_by example_tc k ''t=id;s=alice;sa=webkdc;et=5000;'' c)"
    using bk sealed by auto
  have base64: "\<forall>b. apr_base64_decode example_tc (apr_base64_encode example_tc b) = b"
    by (simp add: example_tc_def)
  have ty: "token_type id_alice = WA_TOKEN_ID"
    by (simp add: id_alice_def)
  have e: "webauth_token_encode example_tc 6000 id_alice (Some ring_new)
             = (WA_ERR_NONE, Some ''AAAA-sealed-id-alice'')"
    using valid bk
    by (simp add: webauth_token_encode_def webauth_token_encode_raw_def
          webauth_token_encrypt_def ring_new_def example_tc_def)
  from expired_rejected_on_decode_only [OF valid expires mature codec crypto base64]
  obtain tok where
    t1: "webauth_token_encode example_tc 6000 id_alice (Some ring_new) = (WA_ERR_NONE, Some tok)"
    and t2: "\<And>now'. webauth_token_decode example_tc now' (token_type id_alice) (Some tok)
                       ring_new =
               (if 5000 < now' then (WA_ERR_TOKEN_EXPIRED, None)
                else (WA_ERR_NONE, Some id_alice))"
    and t3: "\<And>now'. check_token now' id_alice DECODE =
               (if 5000 < now' then WA_ERR_TOKEN_EXPIRED else WA_ERR_NONE)"
    by blast
  from t1 e have "tok = ''AAAA-sealed-id-alice''" by simp
  with t2 [of 6000] t2 [of 5000] t3 [of 6000] e ty show ?thesis by simp
qed

end
